theory Spec2Isabelle
  imports Main "HOL-Library.Word"
begin

section \<open>Zero-knowledge file sharing: key encoding, blob lifecycle and access control\<close>

text \<open>
  A shallow embedding of the TypeScript sources: the browser-side crypto helpers
  (\<open>toBase64Url\<close>, \<open>fromBase64Url\<close>), the API client and the page around it
  (\<open>uploadFile\<close>, the click on the upload button, the share link and the download page),
  and the Express routes of the backend (upload, metadata, blob, my-files, the cleanup
  script and the rate limiters).

  Conventions. A \<open>Uint8Array\<close> is a list of 8-bit words. A JavaScript string is a
  \<open>string\<close>; every string the modelled code handles here is made of code units below
  256. A \<open>Date\<close> is the number of milliseconds since the epoch, or \<open>None\<close> for an
  invalid date. A thrown exception is the \<open>Inl\<close> branch of a sum.
\<close>

subsection \<open>Platform functions: base64\<close>

type_synonym byte = "8 word"

datatype js_error = InvalidCharacterError | RangeError | AuthenticationRequired

text \<open>The base64 alphabet of RFC 4648: \<open>A-Z\<close>, \<open>a-z\<close>, \<open>0-9\<close>, \<open>+\<close>, \<open>/\<close>.\<close>

definition b64_char :: "nat \<Rightarrow> char" where
  "b64_char n =
     (if n < 26 then char_of (65 + n)
      else if n < 52 then char_of (71 + n)
      else if n < 62 then char_of (n - 4)
      else if n = 62 then CHR ''+''
      else CHR ''/'')"

definition b64_index :: "char \<Rightarrow> nat option" where
  "b64_index c =
     (let k = (of_char c :: nat) in
      if 65 \<le> k \<and> k \<le> 90 then Some (k - 65)
      else if 97 \<le> k \<and> k \<le> 122 then Some (k - 71)
      else if 48 \<le> k \<and> k \<le> 57 then Some (k + 4)
      else if k = 43 then Some 62
      else if k = 47 then Some 63
      else None)"

text \<open>Three octets become four sextets; a final group of one or two octets becomes
  two or three sextets, the unused low bits being zero.\<close>

fun sextets :: "nat list \<Rightarrow> nat list" where
  "sextets (a # b # c # r) =
     [a div 4, (a mod 4) * 16 + b div 16, (b mod 16) * 4 + c div 64, c mod 64] @ sextets r"
| "sextets [a, b] = [a div 4, (a mod 4) * 16 + b div 16, (b mod 16) * 4]"
| "sextets [a] = [a div 4, (a mod 4) * 16]"
| "sextets [] = []"

text \<open>\<open>btoa\<close>: the input is a binary string (one code unit per octet); the output is
  padded with \<open>=\<close> to a multiple of four characters.\<close>

definition btoa :: "string \<Rightarrow> string" where
  "btoa s =
     map b64_char (sextets (map of_char s))
       @ replicate ((3 - length s mod 3) mod 3) (CHR ''='')"

text \<open>Four sextets become three octets; a final group of two or three sextets yields
  one or two octets, its left-over bits being dropped.\<close>

fun octets :: "nat list \<Rightarrow> nat list" where
  "octets (a # b # c # d # r) =
     [a * 4 + b div 16, (b mod 16) * 16 + c div 4, (c mod 4) * 64 + d] @ octets r"
| "octets [a, b, c] = [a * 4 + b div 16, (b mod 16) * 16 + c div 4]"
| "octets [a, b] = [a * 4 + b div 16]"
| "octets [a] = []"
| "octets [] = []"

definition ascii_whitespace :: "char \<Rightarrow> bool" where
  "ascii_whitespace c \<longleftrightarrow> (of_char c :: nat) \<in> {9, 10, 12, 13, 32}"

definition strip_padding :: "string \<Rightarrow> string" where
  "strip_padding d =
     (if length d mod 4 = 0 \<and> d \<noteq> [] \<and> last d = CHR ''='' then
        (if butlast d \<noteq> [] \<and> last (butlast d) = CHR ''='' then butlast (butlast d)
         else butlast d)
      else d)"

fun those_list :: "'a option list \<Rightarrow> 'a list option" where
  "those_list [] = Some []"
| "those_list (None # xs) = None"
| "those_list (Some x # xs) = (case those_list xs of None \<Rightarrow> None | Some ys \<Rightarrow> Some (x # ys))"

text \<open>\<open>atob\<close> (the forgiving base64 decoder of the HTML standard): whitespace is
  removed, one or two trailing \<open>=\<close> are removed when the length is a multiple of four,
  and a length of 1 modulo 4 or a character outside the alphabet throws.\<close>

definition atob :: "string \<Rightarrow> js_error + string" where
  "atob s =
     (let d = strip_padding (filter (\<lambda>c. \<not> ascii_whitespace c) s) in
      if length d mod 4 = 1 then Inl InvalidCharacterError
      else case those_list (map b64_index d) of
             None \<Rightarrow> Inl InvalidCharacterError
           | Some ix \<Rightarrow> Inr (map char_of (octets ix)))"

subsection \<open>crypto.ts: the URL-safe key encoding\<close>

definition String_fromCharCode :: "byte list \<Rightarrow> string" where
  "String_fromCharCode bytes = map (\<lambda>b. char_of (unat b)) bytes"

definition replace_all :: "char \<Rightarrow> char \<Rightarrow> string \<Rightarrow> string" where
  "replace_all x y s = map (\<lambda>c. if c = x then y else c) s"

definition remove_all :: "char \<Rightarrow> string \<Rightarrow> string" where
  "remove_all x s = filter (\<lambda>c. c \<noteq> x) s"

definition toBase64Url :: "byte list \<Rightarrow> string" where
  "toBase64Url bytes =
     (let base64 = btoa (String_fromCharCode bytes) in
      remove_all (CHR ''='') (replace_all (CHR ''/'') (CHR ''_'') (replace_all (CHR ''+'') (CHR ''-'') base64)))"

text \<open>The loop \<open>while (base64.length % 4 !== 0) base64 += '='\<close>.\<close>

function add_padding :: "string \<Rightarrow> string" where
  "add_padding base64 =
     (if length base64 mod 4 \<noteq> 0 then add_padding (base64 @ [CHR ''='']) else base64)"
  by pat_completeness auto
termination
  by (relation "measure (\<lambda>s. (4 - length s mod 4) mod 4)") (auto simp: mod_Suc)

declare add_padding.simps [simp del]

definition fromBase64Url :: "string \<Rightarrow> js_error + byte list" where
  "fromBase64Url base64url =
     (let base64 = add_padding (replace_all (CHR ''_'') (CHR ''/'') (replace_all (CHR ''-'') (CHR ''+'') base64url)) in
      case atob base64 of
        Inl e \<Rightarrow> Inl e
      | Inr binary \<Rightarrow> Inr (map (\<lambda>c. of_nat (of_char c)) binary))"

text \<open>The two replacements of \<open>toBase64Url\<close> as one map on characters (used to state
  what the encoder produces).\<close>

definition url_safe :: "char \<Rightarrow> char" where
  "url_safe c = (if c = CHR ''+'' then CHR ''-'' else if c = CHR ''/'' then CHR ''_'' else c)"

subsection \<open>Platform functions: truthiness, \<open>parseInt\<close>, \<open>split\<close>, \<open>trim\<close>\<close>

text \<open>A value that may be \<open>undefined\<close> is an option; \<open>undefined\<close> and the empty string
  are falsy, every other string is truthy (also \<open>"0"\<close>).\<close>

definition truthy :: "string option \<Rightarrow> bool" where
  "truthy v = (case v of None \<Rightarrow> False | Some s \<Rightarrow> s \<noteq> [])"

text \<open>\<open>a || b\<close> on strings.\<close>

definition or_else :: "string option \<Rightarrow> string \<Rightarrow> string" where
  "or_else v d = (case v of None \<Rightarrow> d | Some s \<Rightarrow> if s = [] then d else s)"

text \<open>White space as \<open>parseInt\<close> and \<open>trim\<close> skip it, among the code units below 256:
  TAB, LF, VT, FF, CR, space and the no-break space.\<close>

definition js_whitespace :: "char \<Rightarrow> bool" where
  "js_whitespace c \<longleftrightarrow> (of_char c :: nat) \<in> {9, 10, 11, 12, 13, 32, 160}"

definition digit_val :: "char \<Rightarrow> nat" where
  "digit_val c =
     (let k = (of_char c :: nat) in
      if 48 \<le> k \<and> k \<le> 57 then k - 48
      else if 97 \<le> k \<and> k \<le> 122 then k - 87
      else if 65 \<le> k \<and> k \<le> 90 then k - 55
      else 36)"

definition is_digit :: "nat \<Rightarrow> char \<Rightarrow> bool" where
  "is_digit radix c \<longleftrightarrow> digit_val c < radix"

definition digits_value :: "nat \<Rightarrow> string \<Rightarrow> nat" where
  "digits_value radix z = foldl (\<lambda>a c. a * radix + digit_val c) 0 z"

text \<open>\<open>parseInt(string)\<close> with no radix: leading white space is skipped, a sign is read,
  a prefix \<open>0x\<close> or \<open>0X\<close> selects radix 16, and the longest prefix of digits is the
  value; \<open>None\<close> is \<open>NaN\<close>. (The result is kept as an exact integer: the rounding of a
  double only sets in above \<open>2^53\<close>, where every product with 3600000 is out of the
  range of a \<open>Date\<close> anyway.)\<close>

definition parseInt :: "string \<Rightarrow> int option" where
  "parseInt str =
     (let s = dropWhile js_whitespace str;
          negative = (case s of [] \<Rightarrow> False | c # _ \<Rightarrow> c = CHR ''-'');
          s1 = (case s of [] \<Rightarrow> [] | c # r \<Rightarrow> if c = CHR ''+'' \<or> c = CHR ''-'' then r else s);
          hex = (case s1 of a # b # _ \<Rightarrow> a = CHR ''0'' \<and> (b = CHR ''x'' \<or> b = CHR ''X'') | _ \<Rightarrow> False);
          radix = (if hex then 16 else 10);
          s2 = (if hex then drop 2 s1 else s1);
          z = takeWhile (is_digit radix) s2
      in if z = [] then None
         else Some ((if negative then - 1 else 1) * int (digits_value radix z)))"

text \<open>\<open>s.split(c)\<close> for a one-character separator.\<close>

fun split_on :: "char \<Rightarrow> string \<Rightarrow> string list" where
  "split_on c [] = [[]]"
| "split_on c (x # xs) =
     (if x = c then [] # split_on c xs
      else (case split_on c xs of [] \<Rightarrow> [[x]] | y # ys \<Rightarrow> (x # y) # ys))"

definition trim :: "string \<Rightarrow> string" where
  "trim s = rev (dropWhile js_whitespace (rev (dropWhile js_whitespace s)))"

text \<open>Decimal digits of a number, as \<open>Number.prototype.toString\<close> prints a non-negative
  integer.\<close>

definition digit_char :: "nat \<Rightarrow> char" where
  "digit_char d = ''0123456789'' ! d"

fun pad_digits :: "nat \<Rightarrow> nat \<Rightarrow> string" where
  "pad_digits 0 n = []"
| "pad_digits (Suc w) n = pad_digits w (n div 10) @ [digit_char (n mod 10)]"

fun digit_count :: "nat \<Rightarrow> nat \<Rightarrow> nat" where
  "digit_count 0 n = 1"
| "digit_count (Suc fuel) n = (if n < 10 then 1 else Suc (digit_count fuel (n div 10)))"

definition nat_toString :: "nat \<Rightarrow> string" where
  "nat_toString n = pad_digits (digit_count n n) n"

subsection \<open>Platform functions: \<open>Date\<close>\<close>

text \<open>A time value is a number of milliseconds since 1970-01-01T00:00:00Z; \<open>None\<close> is
  \<open>NaN\<close>, the time value of an invalid date. \<open>new Date(v)\<close> clips: a value beyond
  8.64e15 in magnitude gives an invalid date.\<close>

type_synonym number = "int option"

definition num_mul :: "number \<Rightarrow> int \<Rightarrow> number" where
  "num_mul a k = map_option (\<lambda>x. x * k) a"

definition num_add :: "number \<Rightarrow> number \<Rightarrow> number" where
  "num_add a b = (case a of None \<Rightarrow> None | Some x \<Rightarrow> map_option (\<lambda>y. x + y) b)"

definition new_Date :: "number \<Rightarrow> number" where
  "new_Date v =
     (case v of None \<Rightarrow> None
      | Some t \<Rightarrow> if \<bar>t\<bar> \<le> 8640000000000000 then Some t else None)"

text \<open>The calendar date of a day number (days since the epoch) in the proleptic
  Gregorian calendar: year, month, day of month.\<close>

definition civil_from_days :: "int \<Rightarrow> int \<times> int \<times> int" where
  "civil_from_days days =
     (let z = days + 719468;
          era = z div 146097;
          doe = z mod 146097;
          yoe = (doe - doe div 1460 + doe div 36524 - doe div 146096) div 365;
          doy = doe - (365 * yoe + yoe div 4 - yoe div 100);
          mp = (5 * doy + 2) div 153;
          d = doy - (153 * mp + 2) div 5 + 1;
          m = (if mp < 10 then mp + 3 else mp - 9);
          y = yoe + era * 400 + (if m \<le> 2 then 1 else 0)
      in (y, m, d))"

text \<open>The year of an ISO 8601 text: four digits for the years 0 to 9999, otherwise a
  sign and six digits.\<close>

definition year_text :: "int \<Rightarrow> string" where
  "year_text y =
     (if 0 \<le> y \<and> y \<le> 9999 then pad_digits 4 (nat y)
      else (if y < 0 then CHR ''-'' else CHR ''+'') # pad_digits 6 (nat \<bar>y\<bar>))"

text \<open>\<open>Date.prototype.toISOString\<close> of a valid date:
  \<open>YYYY-MM-DDTHH:mm:ss.sssZ\<close>, or \<open>\<plusminus>YYYYYY-MM-DDTHH:mm:ss.sssZ\<close>.\<close>

definition iso_text :: "int \<Rightarrow> string" where
  "iso_text t =
     (let days = t div 86400000;
          ms = nat (t mod 86400000)
      in case civil_from_days days of (y, m, d) \<Rightarrow>
           year_text y @ ''-'' @ pad_digits 2 (nat m) @ ''-'' @ pad_digits 2 (nat d)
           @ ''T'' @ pad_digits 2 (ms div 3600000)
           @ '':'' @ pad_digits 2 (ms div 60000 mod 60)
           @ '':'' @ pad_digits 2 (ms div 1000 mod 60)
           @ ''.'' @ pad_digits 3 (ms mod 1000) @ ''Z'')"

text \<open>On an invalid date \<open>toISOString\<close> throws a \<open>RangeError\<close> (\<open>Invalid time value\<close>); the
  upload handler below meets this case as the \<open>None\<close> of its \<open>expiryTime\<close>.\<close>

definition toISOString :: "number \<Rightarrow> js_error + string" where
  "toISOString d = (case d of None \<Rightarrow> Inl RangeError | Some t \<Rightarrow> Inr (iso_text t))"

text \<open>How SQLite compares two TEXT values (the columns \<open>createdAt\<close> and \<open>expiryTime\<close>
  are TEXT): byte by byte, a proper prefix being smaller.\<close>

fun text_less :: "string \<Rightarrow> string \<Rightarrow> bool" where
  "text_less [] [] = False"
| "text_less [] (y # ys) = True"
| "text_less (x # xs) [] = False"
| "text_less (x # xs) (y # ys) =
     ((of_char x :: nat) < of_char y \<or> (x = y \<and> text_less xs ys))"

subsection \<open>The shape of a file id\<close>

definition is_hex :: "char \<Rightarrow> bool" where
  "is_hex c \<longleftrightarrow> digit_val c < 16"

definition hex_group :: "nat \<Rightarrow> string \<Rightarrow> bool" where
  "hex_group n s \<longleftrightarrow> length s = n \<and> list_all is_hex s"

text \<open>The test of
  \<open>/^[0-9a-f]{8}-[0-9a-f]{4}-[0-9a-f]{4}-[0-9a-f]{4}-[0-9a-f]{12}$/i\<close>:
  five groups of hexadecimal digits, of lengths 8, 4, 4, 4 and 12, separated by
  hyphens.\<close>

definition uuidRegex_test :: "string \<Rightarrow> bool" where
  "uuidRegex_test fileId =
     (case split_on (CHR ''-'') fileId of
        [a, b, c, d, e] \<Rightarrow>
          hex_group 8 a \<and> hex_group 4 b \<and> hex_group 4 c \<and> hex_group 4 d \<and> hex_group 12 e
      | _ \<Rightarrow> False)"

subsection \<open>models/File.ts, models/Log.ts and the database schema\<close>

text \<open>
  A row of the table \<open>files\<close> (the interface \<open>EncryptedFile\<close>); the fields carry the
  prefix \<open>f_\<close>. The columns \<open>createdAt\<close> and \<open>expiryTime\<close> hold the ISO text of a valid
  date; the model keeps the time value that text denotes (\<open>new Date(text)\<close> gives it back)
  and forms the text with \<open>iso_text\<close> wherever the code works on the text itself.
\<close>

record EncryptedFile =
  f_id :: string
  f_path :: string
  f_iv :: string
  f_ownerId :: string
  f_filename :: string
  f_mimetype :: string
  f_filesize :: nat
  f_createdAt :: int
  f_expiryTime :: int
  f_downloadCount :: nat

datatype EventType =
  DOWNLOAD_OK | NOT_FOUND | EXPIRED | RATE_LIMITED | AUTH_FAILED | UPLOAD_OK | UPLOAD_FAILED

datatype json = JString string | JNumber int

text \<open>A row of the table \<open>logs\<close> (the interface \<open>Log\<close>, prefix \<open>l_\<close>); its \<open>id\<close> is its
  position in the table. \<open>extra\<close> is kept as the object that \<open>JSON.stringify\<close> is applied
  to.\<close>

record Log =
  l_timestamp :: int
  l_ip :: string
  l_userAgent :: string
  l_fileId :: "string option"
  l_eventType :: EventType
  l_extra :: "(string \<times> json) list option"

text \<open>The state of the server: the two tables, the upload directory on disk, and the
  hit counters of the three rate limiters (for each key: hits in the current window and
  the time the window ends).\<close>

type_synonym hit_store = "string \<rightharpoonup> nat \<times> int"

record server =
  files :: "EncryptedFile list"
  logs :: "Log list"
  disk :: "string \<rightharpoonup> byte list"
  downloadHits :: hit_store
  uploadHits :: hit_store
  authHits :: hit_store

record user =
  u_id :: string
  u_email :: string

text \<open>The constants the modules read from the environment when they are loaded, and
  \<open>jwt.verify\<close> with the server's secret (\<open>None\<close> when it throws). The user a verified
  token names is taken to be a row of the table \<open>users\<close>, so that the foreign key of
  \<open>files.ownerId\<close> holds for every upload.\<close>

record config =
  UPLOAD_DIR :: string
  MAX_FILE_SIZE_MB :: nat
  DEFAULT_EXPIRY_HOURS :: number
  RATE_LIMIT_WINDOW_MS :: int
  RATE_LIMIT_MAX :: int
  jwt_verify :: "string \<Rightarrow> user option"

text \<open>What a handler reads of an Express request (prefix \<open>rq_\<close>): \<open>req.ip\<close>,
  \<open>req.socket.remoteAddress\<close> and three headers.\<close>

record request =
  rq_ip :: "string option"
  rq_remoteAddress :: "string option"
  rq_forwarded :: "string option"
  rq_userAgent :: "string option"
  rq_authorization :: "string option"

text \<open>The text fields of the multipart body of an upload, as multer leaves them in
  \<open>req.body\<close>.\<close>

record upload_body =
  b_iv :: "string option"
  b_filename :: "string option"
  b_mimetype :: "string option"
  b_expiresIn :: "string option"

record FileMetadataResponse =
  m_filename :: string
  m_mimetype :: string
  m_filesize :: nat
  m_createdAt :: string
  m_expiryTime :: string
  m_downloadCount :: nat
  m_exists :: bool
  m_expired :: bool

record FileBlobResponse =
  r_ciphertext :: string
  r_iv :: string
  r_filename :: string
  r_mimetype :: string
  r_filesize :: nat

record MyFile =
  i_id :: string
  i_filename :: string
  i_mimetype :: string
  i_filesize :: nat
  i_createdAt :: string
  i_expiryTime :: string
  i_downloadCount :: nat
  i_expired :: bool

text \<open>The JSON bodies the routes send.\<close>

datatype payload =
    Error string
  | Message string
  | Uploaded string string
  | Metadata FileMetadataResponse
  | Blob FileBlobResponse
  | FileList "MyFile list"

type_synonym response = "nat \<times> payload"

subsection \<open>db/index.ts: the statements the routes run\<close>

text \<open>\<open>SELECT * FROM files WHERE id = ?\<close> through \<open>dbGet\<close>: the first matching row.\<close>

definition select_file :: "string \<Rightarrow> server \<Rightarrow> EncryptedFile option" where
  "select_file fileId s = find (\<lambda>f. f_id f = fileId) (files s)"

text \<open>\<open>SELECT * FROM files WHERE id = ? AND ownerId = ?\<close>.\<close>

definition select_owned_file :: "string \<Rightarrow> string \<Rightarrow> server \<Rightarrow> EncryptedFile option" where
  "select_owned_file fileId owner s =
     find (\<lambda>f. f_id f = fileId \<and> f_ownerId f = owner) (files s)"

text \<open>\<open>INSERT INTO files\<close>: \<open>id\<close> is the primary key, so a row whose id is taken is
  refused (\<open>None\<close>: the statement throws).\<close>

definition insert_file :: "EncryptedFile \<Rightarrow> server \<Rightarrow> server option" where
  "insert_file row s =
     (if list_ex (\<lambda>f. f_id f = f_id row) (files s) then None
      else Some (s\<lparr>files := files s @ [row]\<rparr>))"

text \<open>\<open>DELETE FROM files WHERE id = ?\<close>; the foreign key of \<open>logs.fileId\<close> is declared
  \<open>ON DELETE SET NULL\<close>.\<close>

definition delete_file_row :: "string \<Rightarrow> server \<Rightarrow> server" where
  "delete_file_row fileId s =
     s\<lparr>files := filter (\<lambda>f. f_id f \<noteq> fileId) (files s),
       logs := map (\<lambda>l. if l_fileId l = Some fileId then l\<lparr>l_fileId := None\<rparr> else l) (logs s)\<rparr>"

text \<open>\<open>UPDATE files SET downloadCount = downloadCount + 1 WHERE id = ?\<close>.\<close>

definition increment_downloadCount :: "string \<Rightarrow> server \<Rightarrow> server" where
  "increment_downloadCount fileId s =
     s\<lparr>files := map (\<lambda>f. if f_id f = fileId then f\<lparr>f_downloadCount := f_downloadCount f + 1\<rparr> else f)
                      (files s)\<rparr>"

text \<open>\<open>fs.unlinkSync\<close>: throws (\<open>None\<close>) when nothing is stored under the path.\<close>

definition unlinkSync :: "string \<Rightarrow> server \<Rightarrow> server option" where
  "unlinkSync p s = (case disk s p of None \<Rightarrow> None | Some _ \<Rightarrow> Some (s\<lparr>disk := (disk s)(p := None)\<rparr>))"

text \<open>The pattern \<open>try { fs.unlinkSync(path) } catch { log and go on }\<close>.\<close>

definition unlink_quietly :: "string \<Rightarrow> server \<Rightarrow> server" where
  "unlink_quietly p s = (case unlinkSync p s of None \<Rightarrow> s | Some s' \<Rightarrow> s')"

subsection \<open>middleware/logging.ts\<close>

definition getClientIp :: "request \<Rightarrow> string" where
  "getClientIp req =
     (if truthy (rq_forwarded req) then
        (case split_on (CHR '','') (or_else (rq_forwarded req) []) of
           [] \<Rightarrow> [] | first # _ \<Rightarrow> trim first)
      else or_else (rq_ip req) (or_else (rq_remoteAddress req) ''unknown''))"

definition getUserAgent :: "request \<Rightarrow> string" where
  "getUserAgent req = or_else (rq_userAgent req) ''unknown''"

text \<open>\<open>logEvent\<close>: the row is inserted unless the insert throws, which \<open>logEvent\<close>
  swallows. With \<open>foreign_keys = ON\<close> the insert throws when \<open>fileId\<close> names no row of
  \<open>files\<close>. An empty \<open>fileId\<close> is stored as NULL.\<close>

definition logEvent ::
  "int \<Rightarrow> string \<Rightarrow> string \<Rightarrow> string option \<Rightarrow> EventType \<Rightarrow> (string \<times> json) list option \<Rightarrow> server \<Rightarrow> server" where
  "logEvent now ip userAgent fileId eventType extra s =
     (let fid = (if truthy fileId then fileId else None);
          row = \<lparr>l_timestamp = now, l_ip = ip, l_userAgent = userAgent, l_fileId = fid,
                 l_eventType = eventType, l_extra = extra\<rparr>
      in case fid of
           None \<Rightarrow> s\<lparr>logs := logs s @ [row]\<rparr>
         | Some i \<Rightarrow> if list_ex (\<lambda>f. f_id f = i) (files s) then s\<lparr>logs := logs s @ [row]\<rparr> else s)"

definition logRequest ::
  "int \<Rightarrow> request \<Rightarrow> EventType \<Rightarrow> string option \<Rightarrow> (string \<times> json) list option \<Rightarrow> server \<Rightarrow> server" where
  "logRequest now req eventType fileId extra s =
     logEvent now (getClientIp req) (getUserAgent req) fileId eventType extra s"

subsection \<open>middleware/auth.ts\<close>

text \<open>\<open>authenticateToken\<close>: the token is the second part of the \<open>Authorization\<close> header
  split at spaces; the result is the response that ends the request, or the user put
  into \<open>req.user\<close>.\<close>

definition bearer_token :: "string option \<Rightarrow> string option" where
  "bearer_token authHeader =
     (if truthy authHeader then
        (case split_on (CHR '' '') (or_else authHeader []) of
           _ # token # _ \<Rightarrow> Some token
         | _ \<Rightarrow> None)
      else None)"

definition authenticateToken :: "config \<Rightarrow> request \<Rightarrow> response + user" where
  "authenticateToken cfg req =
     (let token = bearer_token (rq_authorization req) in
      if \<not> truthy token then Inl (401, Error ''Access token required'')
      else case jwt_verify cfg (or_else token []) of
             None \<Rightarrow> Inl (403, Error ''Invalid or expired token'')
           | Some decoded \<Rightarrow> Inr decoded)"

subsection \<open>middleware/rateLimit.ts\<close>

text \<open>
  \<open>rateLimit(options)\<close> of express-rate-limit: the middleware keeps, for each key, the
  number of hits in the current window. A request adds a hit for its key (opening a new
  window of \<open>windowMs\<close> when there is none or it has ended); when the hits exceed \<open>max\<close>
  the middleware answers 429 with \<open>message\<close> and the rest of the route does not run.
\<close>

record rate_limit_options =
  windowMs :: int
  max_hits :: int
  message :: string

definition keyGenerator :: "request \<Rightarrow> string" where
  "keyGenerator req = or_else (rq_ip req) (or_else (rq_remoteAddress req) ''unknown'')"

definition increment :: "int \<Rightarrow> int \<Rightarrow> string \<Rightarrow> hit_store \<Rightarrow> hit_store \<times> nat" where
  "increment window now key store =
     (case store key of
        None \<Rightarrow> (store(key \<mapsto> (1, now + window)), 1)
      | Some (n, resetTime) \<Rightarrow>
          if now < resetTime then (store(key \<mapsto> (n + 1, resetTime)), n + 1)
          else (store(key \<mapsto> (1, now + window)), 1))"

definition rateLimit ::
  "rate_limit_options \<Rightarrow> int \<Rightarrow> request \<Rightarrow> hit_store \<Rightarrow> hit_store \<times> response option" where
  "rateLimit options now req store =
     (case increment (windowMs options) now (keyGenerator req) store of
        (store', totalHits) \<Rightarrow>
          (store', if max_hits options < int totalHits then Some (429, Error (message options)) else None))"

definition downloadLimiter :: "config \<Rightarrow> rate_limit_options" where
  "downloadLimiter cfg =
     \<lparr>windowMs = RATE_LIMIT_WINDOW_MS cfg, max_hits = RATE_LIMIT_MAX cfg,
      message = ''Too many download requests from this IP, please try again later''\<rparr>"

definition uploadLimiter :: "config \<Rightarrow> rate_limit_options" where
  "uploadLimiter cfg =
     \<lparr>windowMs = RATE_LIMIT_WINDOW_MS cfg, max_hits = RATE_LIMIT_MAX cfg div 2,
      message = ''Too many upload requests from this IP, please try again later''\<rparr>"

text \<open>\<open>authLimiter\<close> guards the login route of \<open>routes/auth.ts\<close>. The routes of that
  file read and write the tables \<open>users\<close> and \<open>logs\<close> only and are not among the
  operations below; the limiter and its counter are kept as the source declares them.\<close>

definition authLimiter :: "config \<Rightarrow> rate_limit_options" where
  "authLimiter cfg =
     \<lparr>windowMs = RATE_LIMIT_WINDOW_MS cfg, max_hits = 5,
      message = ''Too many login attempts from this IP, please try again later''\<rparr>"

subsection \<open>routes/upload.ts\<close>

definition path_join :: "string \<Rightarrow> string \<Rightarrow> string" where
  "path_join dir name = dir @ ''/'' @ name"

text \<open>\<open>expiresIn ? parseInt(expiresIn) : DEFAULT_EXPIRY_HOURS\<close>.\<close>

definition hoursUntilExpiry :: "config \<Rightarrow> string option \<Rightarrow> number" where
  "hoursUntilExpiry cfg expiresIn =
     (if truthy expiresIn then parseInt (or_else expiresIn []) else DEFAULT_EXPIRY_HOURS cfg)"

text \<open>\<open>new Date(createdAt.getTime() + hoursUntilExpiry * 60 * 60 * 1000)\<close>.\<close>

definition expiry_date :: "int \<Rightarrow> number \<Rightarrow> number" where
  "expiry_date createdAt hours = new_Date (num_add (Some createdAt) (num_mul hours (60 * 60 * 1000)))"

text \<open>
  The handler of \<open>POST /api/upload\<close>, after \<open>authenticateToken\<close>, \<open>uploadLimiter\<close> and
  multer. \<open>now\<close> is the clock reading of \<open>new Date()\<close> and \<open>fileId\<close> the value of
  \<open>uuidv4()\<close>. The bytes are written to disk before the row is inserted; when
  \<open>expiryTime.toISOString()\<close> or the insert throws, the \<open>catch\<close> block logs
  \<open>UPLOAD_FAILED\<close> and answers 500.
\<close>

definition upload_handler ::
  "config \<Rightarrow> int \<Rightarrow> string \<Rightarrow> request \<Rightarrow> user \<Rightarrow> byte list option \<Rightarrow> upload_body \<Rightarrow> server
     \<Rightarrow> server \<times> response" where
  "upload_handler cfg now fileId req usr file body s =
     (case file of
        None \<Rightarrow>
          (logRequest now req UPLOAD_FAILED None (Some [(''reason'', JString ''No file provided'')]) s,
           (400, Error ''File is required''))
      | Some buffer \<Rightarrow>
          if \<not> (truthy (b_iv body) \<and> truthy (b_filename body) \<and> truthy (b_mimetype body)) then
            (logRequest now req UPLOAD_FAILED None (Some [(''reason'', JString ''Missing metadata'')]) s,
             (400, Error ''IV, filename, and mimetype are required''))
          else if length (or_else (b_iv body) []) = 0 then
            (s, (400, Error ''Invalid IV format''))
          else
            let hours = hoursUntilExpiry cfg (b_expiresIn body);
                createdAt = now;
                expiryTime = expiry_date createdAt hours;
                filePath = path_join (UPLOAD_DIR cfg) (fileId @ ''.bin'');
                s1 = s\<lparr>disk := (disk s)(filePath \<mapsto> buffer)\<rparr>
            in (case expiryTime of
                 None \<Rightarrow>
                   (logRequest now req UPLOAD_FAILED None (Some [(''error'', JString ''Invalid time value'')]) s1,
                    (500, Error ''Failed to upload file''))
               | Some expiry \<Rightarrow>
                   (case insert_file
                           \<lparr>f_id = fileId, f_path = filePath, f_iv = or_else (b_iv body) [],
                            f_ownerId = u_id usr, f_filename = or_else (b_filename body) [],
                            f_mimetype = or_else (b_mimetype body) [], f_filesize = length buffer,
                            f_createdAt = createdAt, f_expiryTime = expiry, f_downloadCount = 0\<rparr> s1 of
                      None \<Rightarrow>
                        (logRequest now req UPLOAD_FAILED None
                           (Some [(''error'', JString ''UNIQUE constraint failed: files.id'')]) s1,
                         (500, Error ''Failed to upload file''))
                    | Some s2 \<Rightarrow>
                        (logRequest now req UPLOAD_OK (Some fileId)
                           (Some [(''filename'', JString (or_else (b_filename body) [])),
                                  (''filesize'', JNumber (int (length buffer))),
                                  (''expiryHours'', JNumber (case hours of None \<Rightarrow> 0 | Some h \<Rightarrow> h))]) s2,
                         (201, Uploaded fileId (iso_text expiry))))))"

text \<open>
  The route \<open>router.post('/', authenticateToken, uploadLimiter, upload.single('file'),
  handler)\<close>. A file above the size limit makes multer pass its error on, which the
  application's error handler answers with 500.
\<close>

definition upload_route ::
  "config \<Rightarrow> int \<Rightarrow> string \<Rightarrow> request \<Rightarrow> byte list option \<Rightarrow> upload_body \<Rightarrow> server
     \<Rightarrow> server \<times> response" where
  "upload_route cfg now fileId req file body s =
     (case authenticateToken cfg req of
        Inl denied \<Rightarrow> (s, denied)
      | Inr usr \<Rightarrow>
          (case rateLimit (uploadLimiter cfg) now req (uploadHits s) of
             (hits, limited) \<Rightarrow>
               (case limited of
                  Some too_many \<Rightarrow> (s\<lparr>uploadHits := hits\<rparr>, too_many)
                | None \<Rightarrow>
                    if MAX_FILE_SIZE_MB cfg * 1024 * 1024 < (case file of None \<Rightarrow> 0 | Some buffer \<Rightarrow> length buffer)
                    then (s\<lparr>uploadHits := hits\<rparr>, (500, Error ''Internal server error''))
                    else upload_handler cfg now fileId req usr file body (s\<lparr>uploadHits := hits\<rparr>))))"

subsection \<open>routes/file.ts\<close>

text \<open>\<open>GET /api/file/:fileId/metadata\<close>: no middleware in front of the handler.\<close>

definition metadata_route :: "int \<Rightarrow> request \<Rightarrow> string \<Rightarrow> server \<Rightarrow> server \<times> response" where
  "metadata_route now req fileId s =
     (if \<not> uuidRegex_test fileId then (s, (400, Error ''Invalid file ID format''))
      else case select_file fileId s of
             None \<Rightarrow> (logRequest now req NOT_FOUND (Some fileId) None s, (404, Error ''File not found''))
           | Some file \<Rightarrow>
               (s, (200, Metadata
                      \<lparr>m_filename = f_filename file, m_mimetype = f_mimetype file,
                       m_filesize = f_filesize file, m_createdAt = iso_text (f_createdAt file),
                       m_expiryTime = iso_text (f_expiryTime file),
                       m_downloadCount = f_downloadCount file, m_exists = True,
                       m_expired = (f_expiryTime file < now)\<rparr>)))"

text \<open>The handler of \<open>GET /api/file/:fileId/blob\<close>. \<open>ciphertext.toString('base64')\<close> is
  the padded base64 text of the bytes.\<close>

definition blob_handler :: "int \<Rightarrow> request \<Rightarrow> string \<Rightarrow> server \<Rightarrow> server \<times> response" where
  "blob_handler now req fileId s =
     (if \<not> uuidRegex_test fileId then (s, (400, Error ''Invalid file ID format''))
      else case select_file fileId s of
             None \<Rightarrow> (logRequest now req NOT_FOUND (Some fileId) None s, (404, Error ''File not found''))
           | Some file \<Rightarrow>
               if f_expiryTime file < now then
                 (logRequest now req EXPIRED (Some fileId) None s, (410, Error ''File has expired''))
               else (case disk s (f_path file) of
                      None \<Rightarrow> (s, (404, Error ''File data not found''))
                    | Some ciphertext \<Rightarrow>
                        (logRequest now req DOWNLOAD_OK (Some fileId)
                           (Some [(''filename'', JString (f_filename file)),
                                  (''downloadCount'', JNumber (int (f_downloadCount file) + 1))])
                           (increment_downloadCount fileId s),
                         (200, Blob
                            \<lparr>r_ciphertext = btoa (String_fromCharCode ciphertext), r_iv = f_iv file,
                             r_filename = f_filename file, r_mimetype = f_mimetype file,
                             r_filesize = f_filesize file\<rparr>))))"

text \<open>The route \<open>router.get('/:fileId/blob', downloadLimiter, handler)\<close>.\<close>

definition blob_route :: "config \<Rightarrow> int \<Rightarrow> request \<Rightarrow> string \<Rightarrow> server \<Rightarrow> server \<times> response" where
  "blob_route cfg now req fileId s =
     (case rateLimit (downloadLimiter cfg) now req (downloadHits s) of
        (hits, limited) \<Rightarrow>
          (case limited of
             Some too_many \<Rightarrow> (s\<lparr>downloadHits := hits\<rparr>, too_many)
           | None \<Rightarrow> blob_handler now req fileId (s\<lparr>downloadHits := hits\<rparr>)))"

subsection \<open>routes/myfiles.ts\<close>

text \<open>\<open>ORDER BY createdAt DESC\<close>, on the text of the column.\<close>

fun insert_newest_first :: "EncryptedFile \<Rightarrow> EncryptedFile list \<Rightarrow> EncryptedFile list" where
  "insert_newest_first f [] = [f]"
| "insert_newest_first f (g # gs) =
     (if text_less (iso_text (f_createdAt f)) (iso_text (f_createdAt g))
      then g # insert_newest_first f gs else f # g # gs)"

definition select_files_of_owner :: "string \<Rightarrow> server \<Rightarrow> EncryptedFile list" where
  "select_files_of_owner owner s =
     foldr insert_newest_first (filter (\<lambda>f. f_ownerId f = owner) (files s)) []"

definition list_route :: "config \<Rightarrow> int \<Rightarrow> request \<Rightarrow> server \<Rightarrow> server \<times> response" where
  "list_route cfg now req s =
     (case authenticateToken cfg req of
        Inl denied \<Rightarrow> (s, denied)
      | Inr usr \<Rightarrow>
          (s, (200, FileList
                 (map (\<lambda>file.
                         \<lparr>i_id = f_id file, i_filename = f_filename file, i_mimetype = f_mimetype file,
                          i_filesize = f_filesize file, i_createdAt = iso_text (f_createdAt file),
                          i_expiryTime = iso_text (f_expiryTime file),
                          i_downloadCount = f_downloadCount file,
                          i_expired = (f_expiryTime file < now)\<rparr>)
                    (select_files_of_owner (u_id usr) s)))))"

text \<open>\<open>DELETE /api/myfiles/:fileId\<close>: the row is looked up by id and owner together.\<close>

definition delete_route :: "config \<Rightarrow> request \<Rightarrow> string \<Rightarrow> server \<Rightarrow> server \<times> response" where
  "delete_route cfg req fileId s =
     (case authenticateToken cfg req of
        Inl denied \<Rightarrow> (s, denied)
      | Inr usr \<Rightarrow>
          (case select_owned_file fileId (u_id usr) s of
             None \<Rightarrow> (s, (404, Error ''File not found or you do not own this file''))
           | Some file \<Rightarrow>
               (delete_file_row fileId (unlink_quietly (f_path file) s),
                (200, Message ''File deleted successfully''))))"

subsection \<open>scripts/cleanup.ts\<close>

text \<open>\<open>SELECT * FROM files WHERE expiryTime < ?\<close> with \<open>new Date().toISOString()\<close>: a
  comparison of two texts.\<close>

definition select_expired :: "int \<Rightarrow> server \<Rightarrow> EncryptedFile list" where
  "select_expired now s =
     filter (\<lambda>f. text_less (iso_text (f_expiryTime f)) (iso_text now)) (files s)"

text \<open>The loop over the expired rows: the bytes are unlinked (a failure is only
  logged), the row is deleted, the count goes up. The result carries \<open>deletedCount\<close>.\<close>

fun cleanup_loop :: "EncryptedFile list \<Rightarrow> server \<Rightarrow> nat \<Rightarrow> server \<times> nat" where
  "cleanup_loop [] s deletedCount = (s, deletedCount)"
| "cleanup_loop (file # rest) s deletedCount =
     cleanup_loop rest (delete_file_row (f_id file) (unlink_quietly (f_path file) s)) (deletedCount + 1)"

text \<open>\<open>cleanupExpiredFiles\<close>: \<open>now\<close> is the clock reading of \<open>new Date()\<close>. The statements on
  the tables do not fail in this model, so the script's \<open>errorCount\<close> stays 0 and only
  \<open>deletedCount\<close> is returned.\<close>

definition cleanupExpiredFiles :: "int \<Rightarrow> server \<Rightarrow> server \<times> nat" where
  "cleanupExpiredFiles now s =
     (let expiredFiles = select_expired now s in
      if length expiredFiles = 0 then (s, 0) else cleanup_loop expiredFiles s 0)"

subsection \<open>The operations of the server as one step function\<close>

datatype operation =
    Upload request "byte list option" upload_body string
  | GetMetadata request string
  | GetBlob request string
  | ListMyFiles request
  | DeleteMyFile request string
  | Cleanup

datatype outcome = Http response | Swept nat

definition step :: "config \<Rightarrow> int \<Rightarrow> operation \<Rightarrow> server \<Rightarrow> server \<times> outcome" where
  "step cfg now op s =
     (case op of
        Upload req file body fileId \<Rightarrow> map_prod (\<lambda>x. x) Http (upload_route cfg now fileId req file body s)
      | GetMetadata req fileId \<Rightarrow> map_prod (\<lambda>x. x) Http (metadata_route now req fileId s)
      | GetBlob req fileId \<Rightarrow> map_prod (\<lambda>x. x) Http (blob_route cfg now req fileId s)
      | ListMyFiles req \<Rightarrow> map_prod (\<lambda>x. x) Http (list_route cfg now req s)
      | DeleteMyFile req fileId \<Rightarrow> map_prod (\<lambda>x. x) Http (delete_route cfg req fileId s)
      | Cleanup \<Rightarrow> map_prod (\<lambda>x. x) Swept (cleanupExpiredFiles now s))"

text \<open>The error classes of the specification, read off the status of a response.\<close>

datatype failure =
  InvalidInput | Unauthenticated | Forbidden | NotFound | Expired | RateLimited | Internal

definition failure_of :: "response \<Rightarrow> failure option" where
  "failure_of r =
     (let status = fst r in
      if status = 400 then Some InvalidInput
      else if status = 401 then Some Unauthenticated
      else if status = 403 then Some Forbidden
      else if status = 404 then Some NotFound
      else if status = 410 then Some Expired
      else if status = 429 then Some RateLimited
      else if status = 500 then Some Internal
      else None)"

subsection \<open>Concrete inputs\<close>

text \<open>The configuration the modules fall back to when the environment sets nothing,
  with a token verifier that knows two users.\<close>

definition alice :: user where
  "alice = \<lparr>u_id = ''alice'', u_email = ''alice@example.org''\<rparr>"

definition bob :: user where
  "bob = \<lparr>u_id = ''bob'', u_email = ''bob@example.org''\<rparr>"

definition default_config :: config where
  "default_config =
     \<lparr>UPLOAD_DIR = ''uploads'', MAX_FILE_SIZE_MB = 50, DEFAULT_EXPIRY_HOURS = parseInt ''24'',
      RATE_LIMIT_WINDOW_MS = 900000, RATE_LIMIT_MAX = 100,
      jwt_verify = (\<lambda>token. if token = ''token-of-alice'' then Some alice
                             else if token = ''token-of-bob'' then Some bob else None)\<rparr>"

definition anonymous_request :: request where
  "anonymous_request =
     \<lparr>rq_ip = Some ''203.0.113.7'', rq_remoteAddress = None, rq_forwarded = None,
      rq_userAgent = Some ''curl/8.5.0'', rq_authorization = None\<rparr>"

definition request_of_alice :: request where
  "request_of_alice = anonymous_request\<lparr>rq_authorization := Some ''Bearer token-of-alice''\<rparr>"

definition request_of_bob :: request where
  "request_of_bob = anonymous_request\<lparr>rq_authorization := Some ''Bearer token-of-bob''\<rparr>"

definition empty_server :: server where
  "empty_server =
     \<lparr>files = [], logs = [], disk = Map.empty, downloadHits = Map.empty,
      uploadHits = Map.empty, authHits = Map.empty\<rparr>"

text \<open>A file id, a clock reading (\<open>t_2026\<close> is 2026-11-02T00:00:00.000Z) and a row owned by bob that
  expires one hour later.\<close>

definition some_id :: string where
  "some_id = ''123e4567-e89b-42d3-a456-426614174000''"

definition other_id :: string where
  "other_id = ''00000000-0000-4000-8000-000000000000''"

definition t_2026 :: int where
  "t_2026 = 1793577600000"

definition file_of_bob :: EncryptedFile where
  "file_of_bob =
     \<lparr>f_id = some_id, f_path = ''uploads/123e4567-e89b-42d3-a456-426614174000.bin'',
      f_iv = ''AAECAwQFBgcICQoL'', f_ownerId = ''bob'', f_filename = ''notes.txt'',
      f_mimetype = ''text/plain'', f_filesize = 3, f_createdAt = t_2026,
      f_expiryTime = t_2026 + 3600000, f_downloadCount = 0\<rparr>"

definition server_with_file :: server where
  "server_with_file =
     empty_server\<lparr>files := [file_of_bob],
                  disk := [''uploads/123e4567-e89b-42d3-a456-426614174000.bin'' \<mapsto> [1, 2, 3]]\<rparr>"

definition upload_fields :: "string option \<Rightarrow> upload_body" where
  "upload_fields expiresIn =
     \<lparr>b_iv = Some ''AAECAwQFBgcICQoL'', b_filename = Some ''notes.txt'',
      b_mimetype = Some ''text/plain'', b_expiresIn = expiresIn\<rparr>"

text \<open>The primary key of the table \<open>files\<close>: no two rows share an id.\<close>

definition primary_key :: "server \<Rightarrow> bool" where
  "primary_key s \<longleftrightarrow> distinct (map f_id (files s))"

text \<open>The upload of three bytes by bob into the empty server at \<open>t_2026\<close>, with a given \<open>expiresIn\<close>.\<close>

definition uploaded_with_ttl :: "string option \<Rightarrow> server \<times> response" where
  "uploaded_with_ttl expiresIn =
     upload_route default_config t_2026 some_id request_of_bob (Some [1, 2, 3])
       (upload_fields expiresIn) empty_server"


text \<open>What \<open>UPDATE files SET downloadCount = downloadCount + 1 WHERE id = ?\<close> does to a
  row.\<close>

definition count_download :: "string \<Rightarrow> EncryptedFile \<Rightarrow> EncryptedFile" where
  "count_download fileId f =
     (if f_id f = fileId then f\<lparr>f_downloadCount := f_downloadCount f + 1\<rparr> else f)"

text \<open>The status of the response of a step (0 for the cleanup script, which answers no
  request).\<close>

definition status_of :: "outcome \<Rightarrow> nat" where
  "status_of out = (case out of Http r \<Rightarrow> fst r | Swept _ \<Rightarrow> 0)"

text \<open>The server with the file of bob, after 100 blob requests from the address of
  \<open>anonymous_request\<close> in a window that ends 15 minutes after \<open>t_2026\<close>.\<close>

definition limited_server :: server where
  "limited_server =
     server_with_file\<lparr>downloadHits := [''203.0.113.7'' \<mapsto> (100, t_2026 + 900000)]\<rparr>"

text \<open>The number of \<open>RATE_LIMITED\<close> events in the log.\<close>

definition rate_limited_events :: "server \<Rightarrow> nat" where
  "rate_limited_events s = length (filter (\<lambda>l. l_eventType l = RATE_LIMITED) (logs s))"

subsection \<open>frontend: api.ts\<close>

text \<open>
  A request as \<open>fetch\<close> sends it: the method, the URL after \<open>API_BASE_URL\<close>, the headers
  and the fields of the multipart body. A user agent never transmits the fragment of a
  URL; \<open>sent_path\<close> is the part of a URL before its query and fragment.
\<close>

datatype form_value = FormBlob "byte list" | FormText string

record http_request =
  h_method :: string
  h_url :: string
  h_headers :: "(string \<times> string) list"
  h_body :: "(string \<times> form_value) list"

definition sent_path :: "string \<Rightarrow> string" where
  "sent_path url = takeWhile (\<lambda>c. c \<noteq> CHR ''?'' \<and> c \<noteq> CHR ''#'') url"

text \<open>\<open>uploadFile\<close>: throws when no token is stored; \<open>expiresIn\<close> is appended only when
  truthy (a non-zero number).\<close>

definition uploadFile ::
  "string option \<Rightarrow> byte list \<Rightarrow> byte list \<Rightarrow> string \<Rightarrow> string \<Rightarrow> nat \<Rightarrow> nat option
     \<Rightarrow> js_error + http_request" where
  "uploadFile token ciphertext iv filename mimetype filesize expiresIn =
     (if \<not> truthy token then Inl AuthenticationRequired
      else Inr
        \<lparr>h_method = ''POST'', h_url = ''/api/upload'',
         h_headers = [(''Authorization'', ''Bearer '' @ or_else token [])],
         h_body =
           [(''file'', FormBlob ciphertext),
            (''iv'', FormText (btoa (String_fromCharCode iv))),
            (''filename'', FormText filename),
            (''mimetype'', FormText mimetype),
            (''filesize'', FormText (nat_toString filesize))]
           @ (case expiresIn of
                None \<Rightarrow> []
              | Some n \<Rightarrow> if n = 0 then [] else [(''expiresIn'', FormText (nat_toString n))])\<rparr>)"

definition getFileMetadata :: "string \<Rightarrow> http_request" where
  "getFileMetadata fileId =
     \<lparr>h_method = ''GET'', h_url = ''/api/file/'' @ fileId @ ''/metadata'', h_headers = [], h_body = []\<rparr>"

definition downloadFile :: "string \<Rightarrow> http_request" where
  "downloadFile fileId =
     \<lparr>h_method = ''GET'', h_url = ''/api/file/'' @ fileId @ ''/blob'', h_headers = [], h_body = []\<rparr>"

definition getMyFiles :: "string option \<Rightarrow> js_error + http_request" where
  "getMyFiles token =
     (if \<not> truthy token then Inl AuthenticationRequired
      else Inr \<lparr>h_method = ''GET'', h_url = ''/api/myfiles'',
                h_headers = [(''Authorization'', ''Bearer '' @ or_else token [])], h_body = []\<rparr>)"

definition deleteFile :: "string option \<Rightarrow> string \<Rightarrow> js_error + http_request" where
  "deleteFile token fileId =
     (if \<not> truthy token then Inl AuthenticationRequired
      else Inr \<lparr>h_method = ''DELETE'', h_url = ''/api/myfiles/'' @ fileId,
                h_headers = [(''Authorization'', ''Bearer '' @ or_else token [])], h_body = []\<rparr>)"

subsection \<open>frontend: main.ts\<close>

text \<open>The file chosen in the form: \<open>file.name\<close>, \<open>file.type\<close>, \<open>file.size\<close>.\<close>

record chosen_file =
  cf_name :: string
  cf_type :: string
  cf_size :: nat

text \<open>The share link \<open>`${origin}/file/${fileId}#${keyBase64Url}`\<close>.\<close>

definition shareLink :: "string \<Rightarrow> string \<Rightarrow> string \<Rightarrow> string" where
  "shareLink origin fileId keyBase64Url = origin @ ''/file/'' @ fileId @ ''#'' @ keyBase64Url"

text \<open>
  \<open>fetch\<close> is a parameter of the client: it takes a request and the state of whatever
  answers it (the network and the server) and returns the new state and the response, or
  \<open>None\<close> when the promise is rejected (no answer). Of a response the client reads
  \<open>response.ok\<close> and the JSON body (every body is JSON, as those of the routes and of the
  rate limiters are); the property \<open>fileId\<close> is \<open>undefined\<close> on every body
  but that of a successful upload, and \<open>undefined\<close> reads \<open>undefined\<close> inside a template
  literal and as a property name.
\<close>

definition response_ok :: "response \<Rightarrow> bool" where
  "response_ok r \<longleftrightarrow> 200 \<le> fst r \<and> fst r \<le> 299"

definition json_fileId :: "payload \<Rightarrow> string option" where
  "json_fileId body = (case body of Uploaded fileId expiryTime \<Rightarrow> Some fileId | _ \<Rightarrow> None)"

definition String_of :: "string option \<Rightarrow> string" where
  "String_of v = (case v of None \<Rightarrow> ''undefined'' | Some text \<Rightarrow> text)"

text \<open>
  \<open>loadMyFiles\<close>: nothing happens when the page lacks the elements \<open>my-files-section\<close>
  and \<open>my-files-list\<close>; otherwise \<open>getMyFiles\<close> sends \<open>GET /api/myfiles\<close> with the stored
  token, and whatever comes back (or is thrown) is rendered into the page. The result is
  the new state behind \<open>fetch\<close>, the requests sent and the responses received.
\<close>

definition loadMyFiles ::
  "bool \<Rightarrow> string option \<Rightarrow> (http_request \<Rightarrow> 'srv \<Rightarrow> 'srv \<times> response option) \<Rightarrow> 'srv
     \<Rightarrow> 'srv \<times> http_request list \<times> response list" where
  "loadMyFiles myFilesOnPage token fetch srv =
     (if \<not> myFilesOnPage then (srv, [], [])
      else case getMyFiles token of
             Inl _ \<Rightarrow> (srv, [], [])
           | Inr req \<Rightarrow>
               (case fetch req srv of
                  (srv', None) \<Rightarrow> (srv', [req], [])
                | (srv', Some r) \<Rightarrow> (srv', [req], [r])))"

text \<open>
  What the click on the upload button does, as far as the outside can see it: the
  requests sent and the responses received, in order, the share link formed, and the
  item \<open>file_keys\<close> of \<open>sessionStorage\<close> (an object from file ids to encoded keys, written
  by \<open>storeFileKey\<close> only). The file chosen in the form (\<open>None\<close> when there is none), the
  raw bytes of the fresh key (\<open>exportKey\<close>), the fresh IV and the ciphertext that
  \<open>crypto.subtle.encrypt\<close> returned are inputs, as are the stored token, \<open>fetch\<close> and the
  state behind it. A response that is not \<open>ok\<close>, like a rejected \<open>fetch\<close>, makes
  \<open>uploadFile\<close> throw, and the handler only shows the message. After a successful upload
  the handler stores the key, forms the link and calls \<open>loadMyFiles\<close>.
\<close>

record click_result =
  sent :: "http_request list"
  received :: "response list"
  link :: "string option"
  file_keys :: "string \<rightharpoonup> string"

definition upload_click ::
  "string \<Rightarrow> string option \<Rightarrow> bool \<Rightarrow> (string \<rightharpoonup> string) \<Rightarrow> chosen_file option
     \<Rightarrow> byte list \<Rightarrow> byte list \<Rightarrow> byte list
     \<Rightarrow> (http_request \<Rightarrow> 'srv \<Rightarrow> 'srv \<times> response option) \<Rightarrow> 'srv \<Rightarrow> 'srv \<times> click_result" where
  "upload_click origin token myFilesOnPage keys chosen keyBytes iv ciphertext fetch srv =
     (case chosen of
        None \<Rightarrow> (srv, \<lparr>sent = [], received = [], link = None, file_keys = keys\<rparr>)
      | Some f \<Rightarrow>
          (case uploadFile token ciphertext iv (cf_name f)
                  (or_else (Some (cf_type f)) ''application/octet-stream'') (cf_size f) None of
             Inl _ \<Rightarrow> (srv, \<lparr>sent = [], received = [], link = None, file_keys = keys\<rparr>)
           | Inr req \<Rightarrow>
               (case fetch req srv of
                  (srv1, None) \<Rightarrow>
                    (srv1, \<lparr>sent = [req], received = [], link = None, file_keys = keys\<rparr>)
                | (srv1, Some r) \<Rightarrow>
                    if \<not> response_ok r then
                      (srv1, \<lparr>sent = [req], received = [r], link = None, file_keys = keys\<rparr>)
                    else
                      let fileId = String_of (json_fileId (snd r));
                          keyBase64Url = toBase64Url keyBytes
                      in (case loadMyFiles myFilesOnPage token fetch srv1 of
                            (srv2, reqs, rs) \<Rightarrow>
                              (srv2,
                               \<lparr>sent = req # reqs, received = r # rs,
                                link = Some (shareLink origin fileId keyBase64Url),
                                file_keys = keys(fileId \<mapsto> keyBase64Url)\<rparr>)))))"

text \<open>\<open>window.location\<close> for a URL below the origin: the path name ends before a \<open>?\<close> or
  \<open>#\<close>, the hash starts at the first \<open>#\<close> (and is empty when nothing follows it).\<close>

definition location_pathname :: "string \<Rightarrow> string \<Rightarrow> string" where
  "location_pathname origin url = sent_path (drop (length origin) url)"

definition location_hash :: "string \<Rightarrow> string" where
  "location_hash url =
     (let h = dropWhile (\<lambda>c. c \<noteq> CHR ''#'') url in if length h \<le> 1 then [] else h)"

text \<open>\<open>initDownloadPage\<close> and \<open>loadFileForDownload\<close>: the file id is the last part of the
  path name, the key is the hash without its \<open>#\<close>; with both present the page requests
  the metadata. The result is the request sent and the encoded key kept for decrypting.\<close>

definition initDownloadPage :: "string \<Rightarrow> string \<Rightarrow> (http_request \<times> string) option" where
  "initDownloadPage origin url =
     (let pathParts = split_on (CHR ''/'') (location_pathname origin url);
          fileId = last pathParts;
          keyBase64Url = drop 1 (location_hash url)
      in if fileId = [] \<or> keyBase64Url = [] then None
         else Some (getFileMetadata fileId, keyBase64Url))"

section \<open>The URL-safe encoding of the key\<close>

subsection \<open>The alphabet\<close>

lemma of_char_b64_char:
  "n < 64 \<Longrightarrow> (of_char (b64_char n) :: nat) =
     (if n < 26 then 65 + n else if n < 52 then 71 + n else if n < 62 then n - 4
      else if n = 62 then 43 else 47)"
  by (simp add: b64_char_def)

lemma b64_index_b64_char: "n < 64 \<Longrightarrow> b64_index (b64_char n) = Some n"
  by (auto simp: b64_index_def of_char_b64_char Let_def)

lemma b64_char_code_notin:
  "n < 64 \<Longrightarrow> (of_char (b64_char n) :: nat) \<notin> {61, 45, 95, 9, 10, 12, 13, 32}"
  by (auto simp: of_char_b64_char split: if_splits)

lemma b64_char_neq_pad: "n < 64 \<Longrightarrow> b64_char n \<noteq> CHR ''=''"
  using b64_char_code_notin [of n] by auto

lemma b64_char_neq_minus: "n < 64 \<Longrightarrow> b64_char n \<noteq> CHR ''-''"
  using b64_char_code_notin [of n] by auto

lemma b64_char_neq_underscore: "n < 64 \<Longrightarrow> b64_char n \<noteq> CHR ''_''"
  using b64_char_code_notin [of n] by auto

lemma b64_char_not_ws: "n < 64 \<Longrightarrow> \<not> ascii_whitespace (b64_char n)"
  using b64_char_code_notin [of n] by (auto simp: ascii_whitespace_def)

subsection \<open>Octets and sextets\<close>

lemma sextets_bound: "\<forall>x \<in> set xs. x < 256 \<Longrightarrow> \<forall>y \<in> set (sextets xs). y < 64"
  by (induction xs rule: sextets.induct) (auto simp: less_mult_imp_div_less)

lemma octets_sextets: "\<forall>x \<in> set xs. x < 256 \<Longrightarrow> octets (sextets xs) = xs"
  by (induction xs rule: sextets.induct) auto

lemma sextets_shape:
  "\<exists>q. (length xs = 3 * q \<and> length (sextets xs) = 4 * q)
     \<or> (length xs = 3 * q + 1 \<and> length (sextets xs) = 4 * q + 2)
     \<or> (length xs = 3 * q + 2 \<and> length (sextets xs) = 4 * q + 3)"
proof (induction xs rule: sextets.induct)
  case (1 a b c r)
  then obtain q where q: "(length r = 3 * q \<and> length (sextets r) = 4 * q)
     \<or> (length r = 3 * q + 1 \<and> length (sextets r) = 4 * q + 2)
     \<or> (length r = 3 * q + 2 \<and> length (sextets r) = 4 * q + 3)" by blast
  show ?case by (rule exI [of _ "Suc q"]) (use q in auto)
next
  case (2 a b)
  show ?case by (rule exI [of _ 0]) simp
next
  case (3 a)
  show ?case by (rule exI [of _ 0]) simp
next
  case 4
  show ?case by (rule exI [of _ 0]) simp
qed

lemma pad_count:
  "(length (sextets xs) + (3 - length xs mod 3) mod 3) mod 4 = 0"
  "(4 - length (sextets xs) mod 4) mod 4 = (3 - length xs mod 3) mod 3"
  "length (sextets xs) mod 4 \<noteq> 1"
proof -
  obtain q where q: "(length xs = 3 * q \<and> length (sextets xs) = 4 * q)
     \<or> (length xs = 3 * q + 1 \<and> length (sextets xs) = 4 * q + 2)
     \<or> (length xs = 3 * q + 2 \<and> length (sextets xs) = 4 * q + 3)"
    using sextets_shape by blast
  have m3: "(3 * q + r) mod 3 = r mod 3" "(4 * q + r) mod 4 = r mod 4" for r by simp_all
  have m0: "(3 * q) mod 3 = 0" "(4 * q) mod 4 = 0" by simp_all
  show "(length (sextets xs) + (3 - length xs mod 3) mod 3) mod 4 = 0"
    using q by (elim disjE conjE) (simp_all only: m3 m0, simp_all)
  show "(4 - length (sextets xs) mod 4) mod 4 = (3 - length xs mod 3) mod 3"
    using q by (elim disjE conjE) (simp_all only: m3 m0, simp_all)
  show "length (sextets xs) mod 4 \<noteq> 1"
    using q by (elim disjE conjE) (simp_all only: m3 m0, simp_all)
qed

subsection \<open>Padding\<close>

lemma add_padding_eq:
  "add_padding xs = xs @ replicate ((4 - length xs mod 4) mod 4) (CHR ''='')"
proof (induction xs rule: add_padding.induct)
  case (1 base64)
  show ?case
  proof (cases "length base64 mod 4 = 0")
    case True
    then show ?thesis by (subst add_padding.simps) simp
  next
    case False
    have "add_padding base64 = add_padding (base64 @ [CHR ''=''])"
      using False by (subst add_padding.simps) simp
    also have "\<dots> = (base64 @ [CHR ''='']) @ replicate ((4 - length (base64 @ [CHR ''='']) mod 4) mod 4) (CHR ''='')"
      using 1 False by simp
    also have "\<dots> = base64 @ replicate (Suc ((4 - length (base64 @ [CHR ''='']) mod 4) mod 4)) (CHR ''='')"
      by simp
    also have "Suc ((4 - length (base64 @ [CHR ''='']) mod 4) mod 4) = (4 - length base64 mod 4) mod 4"
      using False by (simp add: mod_Suc) arith
    finally show ?thesis .
  qed
qed

lemma strip_padding_body:
  assumes "k \<le> 2" "(length body + k) mod 4 = 0" "body = [] \<or> last body \<noteq> CHR ''=''"
  shows "strip_padding (body @ replicate k (CHR ''='')) = body"
proof -
  consider "k = 0" | "k = 1" | "k = 2" using assms(1) by arith
  then show ?thesis
  proof cases
    case 1
    then show ?thesis using assms by (auto simp: strip_padding_def)
  next
    case 2
    then show ?thesis using assms by (auto simp: strip_padding_def butlast_append)
  next
    case 3
    then have r: "replicate k (CHR ''='') = [CHR ''='', CHR ''='']" by (simp add: numeral_2_eq_2)
    show ?thesis using assms 3 unfolding r by (auto simp: strip_padding_def butlast_append)
  qed
qed

lemma those_list_map_Some:
  "\<forall>x \<in> set xs. f x = Some (g x) \<Longrightarrow> those_list (map f xs) = Some (map g xs)"
  by (induction xs) auto

lemma last_body_neq_pad:
  assumes "\<forall>y \<in> set sx. y < 64"
  shows "map b64_char sx = [] \<or> last (map b64_char sx) \<noteq> CHR ''=''"
proof (cases "sx = []")
  case False
  then have "last sx \<in> set sx" by simp
  with assms have "last sx < 64" by blast
  then show ?thesis using False by (simp add: last_map b64_char_neq_pad)
qed simp

subsection \<open>\<open>atob\<close> undoes \<open>btoa\<close>\<close>

lemma atob_btoa: "atob (btoa s) = Inr s"
proof -
  define cs where "cs = map (of_char :: char \<Rightarrow> nat) s"
  define sx where "sx = sextets cs"
  define body where "body = map b64_char sx"
  define k where "k = (3 - length s mod 3) mod 3"
  have cs: "\<forall>x \<in> set cs. x < 256" by (auto simp: cs_def)
  have sx: "\<forall>y \<in> set sx. y < 64" unfolding sx_def using cs by (rule sextets_bound)
  have len: "length cs = length s" by (simp add: cs_def)
  have b: "btoa s = body @ replicate k (CHR ''='')"
    by (simp add: btoa_def body_def sx_def cs_def k_def)
  have f1: "filter (\<lambda>c. \<not> ascii_whitespace c) body = body"
    unfolding body_def using sx by (auto simp: filter_id_conv b64_char_not_ws)
  have f2: "filter (\<lambda>c. \<not> ascii_whitespace c) (replicate k (CHR ''='')) = replicate k (CHR ''='')"
    by (simp add: ascii_whitespace_def)
  have k2: "k \<le> 2" unfolding k_def by arith
  have m: "(length body + k) mod 4 = 0"
    using pad_count(1) [of cs] by (simp add: body_def sx_def k_def len)
  have s: "strip_padding (body @ replicate k (CHR ''='')) = body"
    using k2 m last_body_neq_pad [OF sx] unfolding body_def [symmetric] by (rule strip_padding_body)
  have n1: "length body mod 4 \<noteq> 1"
    using pad_count(3) [of cs] by (simp add: body_def sx_def)
  have t: "those_list (map b64_index body) = Some sx"
  proof -
    have "those_list (map (b64_index \<circ> b64_char) sx) = Some (map (\<lambda>x. x) sx)"
      by (rule those_list_map_Some) (use sx in \<open>auto simp: b64_index_b64_char\<close>)
    then show ?thesis by (simp add: body_def)
  qed
  have o: "map char_of (octets sx) = s"
    unfolding sx_def using octets_sextets [OF cs] by (simp add: cs_def comp_def)
  show ?thesis
    unfolding atob_def b using n1 by (simp add: f1 f2 s t o Let_def)
qed

subsection \<open>What \<open>toBase64Url\<close> produces, and its inverse\<close>

lemma unat_byte_less: "unat (b :: byte) < 256"
  using unsigned_less [of b, where 'a = nat] by simp

lemma bytes_lt: "\<forall>x \<in> set (map unat (bytes :: byte list)). x < 256"
  by (simp add: unat_byte_less)

lemma codes_fromCharCode: "map of_char (String_fromCharCode bytes) = map unat bytes"
  by (simp add: String_fromCharCode_def unat_byte_less)

lemma replace_twice:
  "replace_all (CHR ''/'') (CHR ''_'') (replace_all (CHR ''+'') (CHR ''-'') xs) = map url_safe xs"
  by (simp add: replace_all_def url_safe_def)

lemma url_safe_neq_pad: "y < 64 \<Longrightarrow> url_safe (b64_char y) \<noteq> CHR ''=''"
  using b64_char_neq_pad [of y] by (simp add: url_safe_def)

lemma remove_pad_body:
  "\<forall>y \<in> set sx. y < 64 \<Longrightarrow>
   remove_all (CHR ''='') (map url_safe (map b64_char sx @ replicate n (CHR ''=''))) = map url_safe (map b64_char sx)"
proof (induction sx)
  case Nil
  then show ?case by (simp add: remove_all_def url_safe_def)
next
  case (Cons a sx)
  then show ?case using url_safe_neq_pad [of a] by (simp add: remove_all_def)
qed

lemma toBase64Url_body:
  "toBase64Url bytes = map url_safe (map b64_char (sextets (map unat bytes)))"
  unfolding toBase64Url_def Let_def replace_twice btoa_def codes_fromCharCode
  by (rule remove_pad_body) (rule sextets_bound [OF bytes_lt])

lemma url_safe_inverse:
  assumes "y < 64"
  shows "(let d = (if url_safe (b64_char y) = CHR ''-'' then CHR ''+'' else url_safe (b64_char y))
          in if d = CHR ''_'' then CHR ''/'' else d) = b64_char y"
  using b64_char_neq_minus [OF assms] b64_char_neq_underscore [OF assms]
  by (simp add: url_safe_def Let_def)

lemma undo_url_safe:
  assumes "\<forall>y \<in> set sx. y < 64"
  shows "replace_all (CHR ''_'') (CHR ''/'') (replace_all (CHR ''-'') (CHR ''+'') (map url_safe (map b64_char sx)))
         = map b64_char sx"
  using assms
proof (induction sx)
  case Nil
  then show ?case by (simp add: replace_all_def)
next
  case (Cons a sx)
  then show ?case using url_safe_inverse [of a] by (simp add: replace_all_def Let_def)
qed

lemma add_padding_body:
  "add_padding (map b64_char (sextets (map of_char s))) = btoa s"
  unfolding add_padding_eq btoa_def using pad_count(2) [of "map of_char s"] by simp

lemma bytes_of_fromCharCode:
  "map (\<lambda>c. of_nat (of_char c)) (String_fromCharCode bytes) = bytes"
  by (simp add: String_fromCharCode_def comp_def unat_byte_less map_idI)

lemma base64url_roundtrip: "fromBase64Url (toBase64Url b) = Inr b"
proof -
  have sx: "\<forall>y \<in> set (sextets (map unat b)). y < 64"
    by (rule sextets_bound [OF bytes_lt])
  have p: "add_padding (map b64_char (sextets (map unat b))) = btoa (String_fromCharCode b)"
    using add_padding_body [of "String_fromCharCode b"] by (simp only: codes_fromCharCode)
  show ?thesis
    unfolding fromBase64Url_def toBase64Url_body undo_url_safe [OF sx] Let_def p atob_btoa
    by (simp add: bytes_of_fromCharCode)
qed

lemma url_safe_code_notin:
  "n < 64 \<Longrightarrow> url_safe (b64_char n) \<notin> {CHR ''+'', CHR ''/'', CHR ''=''}"
  using b64_char_neq_pad [of n] by (auto simp: url_safe_def)

lemma base64url_alphabet:
  "set (toBase64Url b) \<inter> {CHR ''+'', CHR ''/'', CHR ''=''} = {}"
proof -
  have sx: "\<forall>y \<in> set (sextets (map unat b)). y < 64"
    by (rule sextets_bound [OF bytes_lt])
  show ?thesis unfolding toBase64Url_body using sx url_safe_code_notin by fastforce
qed

text \<open>
  Claim C2. For every byte sequence \<open>b\<close> of length 0 to 64, decoding the URL-safe
  encoding of \<open>b\<close> returns \<open>b\<close> (the decoder re-pads the partial group and does not
  throw), and the encoding contains none of the characters \<open>+\<close>, \<open>/\<close> and \<open>=\<close>.
\<close>

theorem C2_base64url_roundtrip:
  assumes "length b \<le> 64"
  shows "fromBase64Url (toBase64Url b) = Inr b
         \<and> CHR ''+'' \<notin> set (toBase64Url b)
         \<and> CHR ''/'' \<notin> set (toBase64Url b)
         \<and> CHR ''='' \<notin> set (toBase64Url b)"
  using base64url_roundtrip [of b] base64url_alphabet [of b] by auto

theorem C2_base64url_roundtrip_witness:
  "length [255, 239, 190, 1 :: byte] \<le> 64
   \<and> fromBase64Url (toBase64Url [255, 239, 190, 1]) = Inr [255, 239, 190, 1]
   \<and> CHR ''+'' \<notin> set (toBase64Url [255, 239, 190, 1])
   \<and> CHR ''/'' \<notin> set (toBase64Url [255, 239, 190, 1])
   \<and> CHR ''='' \<notin> set (toBase64Url [255, 239, 190, 1])"
  using C2_base64url_roundtrip [of "[255, 239, 190, 1]"] by simp

section \<open>The server: auxiliary facts\<close>

lemma find_by_id:
  "distinct (map f_id fs) \<Longrightarrow> f \<in> set fs \<Longrightarrow> find (\<lambda>g. f_id g = f_id f) fs = Some f"
  by (induction fs) (auto simp: image_iff)

lemma select_file_row:
  "primary_key s \<Longrightarrow> f \<in> set (files s) \<Longrightarrow> select_file (f_id f) s = Some f"
  by (simp add: primary_key_def select_file_def find_by_id)

lemma select_owned_none:
  assumes "primary_key s" "f \<in> set (files s)" "f_ownerId f \<noteq> owner"
  shows "select_owned_file (f_id f) owner s = None"
proof -
  have "g \<in> set (files s) \<Longrightarrow> f_id g = f_id f \<Longrightarrow> g = f" for g
    using assms(1,2) unfolding primary_key_def by (meson distinct_map inj_onD)
  then show ?thesis using assms(3) by (auto simp: select_owned_file_def find_None_iff)
qed

lemma select_owned_missing:
  "select_file fileId s = None \<Longrightarrow> select_owned_file fileId owner s = None"
  by (auto simp: select_file_def select_owned_file_def find_None_iff)


lemma auth_alice: "authenticateToken default_config request_of_alice = Inr alice" 
  by (simp add: authenticateToken_def bearer_token_def default_config_def request_of_alice_def anonymous_request_def truthy_def or_else_def)

lemma pk_example: "primary_key server_with_file"
  by (simp add: primary_key_def server_with_file_def empty_server_def)


lemma logEvent_frame [simp]:
  "files (logEvent now ip ua fid ev extra s) = files s"
  "disk (logEvent now ip ua fid ev extra s) = disk s"
  "downloadHits (logEvent now ip ua fid ev extra s) = downloadHits s"
  "uploadHits (logEvent now ip ua fid ev extra s) = uploadHits s"
  "authHits (logEvent now ip ua fid ev extra s) = authHits s"
  by (simp_all add: logEvent_def Let_def split: option.splits)

lemma logRequest_frame [simp]:
  "files (logRequest now req ev fid extra s) = files s"
  "disk (logRequest now req ev fid extra s) = disk s"
  "downloadHits (logRequest now req ev fid extra s) = downloadHits s"
  "uploadHits (logRequest now req ev fid extra s) = uploadHits s"
  "authHits (logRequest now req ev fid extra s) = authHits s"
  by (simp_all add: logRequest_def)

lemma select_file_frame [simp]:
  "select_file fileId (s\<lparr>downloadHits := h\<rparr>) = select_file fileId s"
  "select_file fileId (s\<lparr>uploadHits := h\<rparr>) = select_file fileId s"
  "select_file fileId (s\<lparr>logs := l\<rparr>) = select_file fileId s"
  "select_file fileId (s\<lparr>disk := d\<rparr>) = select_file fileId s"
  by (simp_all add: select_file_def)

lemma blob_route_admitted:
  "rateLimit (downloadLimiter cfg) now req (downloadHits s) = (hits, None) \<Longrightarrow>
   blob_route cfg now req fileId s = blob_handler now req fileId (s\<lparr>downloadHits := hits\<rparr>)"
  by (simp add: blob_route_def)

lemma blob_handler_missing:
  "uuidRegex_test fileId \<Longrightarrow> select_file fileId s = None \<Longrightarrow>
   snd (blob_handler now req fileId s) = (404, Error ''File not found'')"
  by (simp add: blob_handler_def)

lemma blob_handler_expired:
  "uuidRegex_test fileId \<Longrightarrow> select_file fileId s = Some f \<Longrightarrow> f_expiryTime f < now \<Longrightarrow>
   snd (blob_handler now req fileId s) = (410, Error ''File has expired'')"
  by (simp add: blob_handler_def)

lemma blob_handler_served:
  "uuidRegex_test fileId \<Longrightarrow> select_file fileId s = Some f \<Longrightarrow> \<not> f_expiryTime f < now \<Longrightarrow>
   disk s (f_path f) = Some bytes \<Longrightarrow>
   fst (snd (blob_handler now req fileId s)) = 200"
  by (simp add: blob_handler_def)

lemma authenticateToken_denied:
  "authenticateToken cfg req = Inl r \<Longrightarrow> fst r = 401 \<or> fst r = 403"
  by (auto simp: authenticateToken_def Let_def split: if_splits option.splits)

lemma rateLimit_limited:
  "rateLimit options now req store = (hits, Some r) \<Longrightarrow> r = (429, Error (message options))"
  by (auto simp: rateLimit_def split: prod.splits if_splits)

lemma upload_route_created:
  assumes "upload_route cfg now fileId req file body s = (s', (201, p))"
  shows "\<exists>usr buffer h row.
           authenticateToken cfg req = Inr usr \<and> file = Some buffer
           \<and> hoursUntilExpiry cfg (b_expiresIn body) = Some h
           \<and> select_file fileId s = None
           \<and> files s' = files s @ [row]
           \<and> disk s' = (disk s)(path_join (UPLOAD_DIR cfg) (fileId @ ''.bin'') \<mapsto> buffer)
           \<and> downloadHits s' = downloadHits s
           \<and> f_id row = fileId \<and> f_ownerId row = u_id usr
           \<and> f_path row = path_join (UPLOAD_DIR cfg) (fileId @ ''.bin'')
           \<and> f_createdAt row = now \<and> f_expiryTime row = now + h * 3600000
           \<and> f_downloadCount row = 0
           \<and> p = Uploaded fileId (iso_text (now + h * 3600000))"
  using assms
  by (auto simp: upload_route_def dest!: authenticateToken_denied rateLimit_limited simp:  upload_handler_def insert_file_def expiry_date_def new_Date_def
      num_add_def num_mul_def Let_def select_file_def find_None_iff list_ex_iff
      split: sum.splits option.splits if_splits prod.splits)

lemma parseInt_zero: "parseInt ''0'' = Some 0"
  by (simp add: parseInt_def js_whitespace_def is_digit_def digit_val_def digits_value_def Let_def)

lemma parseInt_24: "parseInt ''24'' = Some 24"
  by (simp add: parseInt_def js_whitespace_def is_digit_def digit_val_def digits_value_def Let_def)

lemma hours_zero: "hoursUntilExpiry cfg (Some ''0'') = Some 0"
  by (simp add: hoursUntilExpiry_def truthy_def or_else_def parseInt_zero)

lemma failure_of_status [simp]:
  "failure_of (404, p) = Some NotFound"
  "failure_of (410, p) = Some Expired"
  "failure_of (429, p) = Some RateLimited"
  "failure_of (400, p) = Some InvalidInput"
  "failure_of (200, p) = None"
  "failure_of (201, p) = None"
  by (simp_all add: failure_of_def)

lemma select_file_appended:
  "select_file fileId s = None \<Longrightarrow> files s' = files s @ [row] \<Longrightarrow> f_id row = fileId \<Longrightarrow>
   select_file fileId s' = Some row"
proof -
  have "find P (xs @ [x]) = Some x" if "find P xs = None" "P x" for P and xs :: "'a list" and x
    using that by (induction xs) (auto split: if_splits)
  then show "select_file fileId s = None \<Longrightarrow> files s' = files s @ [row] \<Longrightarrow> f_id row = fileId \<Longrightarrow>
   select_file fileId s' = Some row"
    by (simp add: select_file_def)
qed


lemma uuid_some_id: "uuidRegex_test some_id"
  by (simp add: uuidRegex_test_def some_id_def hex_group_def is_hex_def digit_val_def)

lemma uuid_other_id: "uuidRegex_test other_id"
  by (simp add: uuidRegex_test_def other_id_def hex_group_def is_hex_def digit_val_def)

lemma rateLimit_first:
  "store (keyGenerator req) = None \<Longrightarrow> 1 \<le> max_hits options \<Longrightarrow>
   rateLimit options now req store
     = (store(keyGenerator req \<mapsto> (1, now + windowMs options)), None)"
  by (simp add: rateLimit_def increment_def)

lemma auth_bob: "authenticateToken default_config request_of_bob = Inr bob" 
  by (simp add: authenticateToken_def bearer_token_def default_config_def request_of_bob_def anonymous_request_def truthy_def or_else_def)

lemma failure_of_200: "fst r = 200 \<Longrightarrow> failure_of r = None"
  by (simp add: failure_of_def)

lemma default_config_fields:
  "UPLOAD_DIR default_config = ''uploads''"
  "MAX_FILE_SIZE_MB default_config = 50"
  "DEFAULT_EXPIRY_HOURS default_config = Some 24"
  "RATE_LIMIT_WINDOW_MS default_config = 900000"
  "RATE_LIMIT_MAX default_config = 100"
  by (simp_all add: default_config_def parseInt_24)

lemma empty_server_fields:
  "files empty_server = []" "logs empty_server = []" "disk empty_server = Map.empty"
  "downloadHits empty_server = Map.empty" "uploadHits empty_server = Map.empty"
  "authHits empty_server = Map.empty"
  by (simp_all add: empty_server_def)

lemma uploaded_ttl0: "snd (uploaded_with_ttl (Some ''0'')) = (201, Uploaded some_id (iso_text t_2026))"
  by (simp add: uploaded_with_ttl_def upload_route_def auth_bob rateLimit_first uploadLimiter_def
      default_config_fields empty_server_fields upload_handler_def upload_fields_def truthy_def or_else_def
      hours_zero expiry_date_def new_Date_def num_add_def num_mul_def t_2026_def insert_file_def Let_def)

lemma key_anonymous: "keyGenerator anonymous_request = ''203.0.113.7''"
  by (simp add: keyGenerator_def anonymous_request_def or_else_def)

lemma admitted_first:
  "rateLimit (downloadLimiter default_config) now anonymous_request Map.empty
     = ([''203.0.113.7'' \<mapsto> (1, now + 900000)], None)"
  using rateLimit_first [of Map.empty anonymous_request "downloadLimiter default_config" now]
  by (simp add: key_anonymous downloadLimiter_def default_config_fields)

lemma uploaded_ttl0_state:
  "upload_route default_config t_2026 some_id request_of_bob (Some [1, 2, 3])
       (upload_fields (Some ''0'')) empty_server
     = (fst (uploaded_with_ttl (Some ''0'')), (201, Uploaded some_id (iso_text t_2026)))"
  using uploaded_ttl0 by (simp add: prod_eq_iff uploaded_with_ttl_def)

lemma uploaded_ttl0_row:
  "\<exists>row. select_file some_id (fst (uploaded_with_ttl (Some ''0''))) = Some row \<and> f_expiryTime row = t_2026
         \<and> f_createdAt row = t_2026
         \<and> files (fst (uploaded_with_ttl (Some ''0''))) = [row]
         \<and> downloadHits (fst (uploaded_with_ttl (Some ''0''))) = Map.empty"
proof -
  from upload_route_created [OF uploaded_ttl0_state]
  obtain row h where h: "hoursUntilExpiry default_config (b_expiresIn (upload_fields (Some ''0''))) = Some h"
    and m: "select_file some_id empty_server = None"
    and f: "files (fst (uploaded_with_ttl (Some ''0''))) = files empty_server @ [row]"
    and i: "f_id row = some_id" and e: "f_expiryTime row = t_2026 + h * 3600000"
    and c: "f_createdAt row = t_2026"
    and d: "downloadHits (fst (uploaded_with_ttl (Some ''0''))) = downloadHits empty_server"
    by blast
  from h have "h = 0" by (simp add: upload_fields_def hours_zero)
  with e have "f_expiryTime row = t_2026" by simp
  moreover have "select_file some_id (fst (uploaded_with_ttl (Some ''0''))) = Some row"
    using m f i by (rule select_file_appended)
  ultimately show ?thesis using d f c by (auto simp: empty_server_fields)
qed


lemma hours_default: "hoursUntilExpiry default_config None = Some 24"
  by (simp add: hoursUntilExpiry_def truthy_def default_config_fields)

lemma uploaded_default:
  "snd (uploaded_with_ttl None) = (201, Uploaded some_id (iso_text (t_2026 + 24 * 3600000)))"
  by (simp add: uploaded_with_ttl_def upload_route_def auth_bob rateLimit_first uploadLimiter_def
      default_config_fields empty_server_fields upload_handler_def upload_fields_def truthy_def or_else_def
      hoursUntilExpiry_def expiry_date_def new_Date_def num_add_def num_mul_def t_2026_def insert_file_def Let_def)

lemma uploaded_state:
  "upload_route default_config t_2026 some_id request_of_bob (Some [1, 2, 3])
       (upload_fields e) empty_server
     = (fst (uploaded_with_ttl e), snd (uploaded_with_ttl e))"
  by (simp add: uploaded_with_ttl_def)

lemma uploaded_changes:
  assumes "fst (snd (uploaded_with_ttl e)) = 201"
  shows "files (fst (uploaded_with_ttl e)) \<noteq> files empty_server"
proof -
  obtain p where "snd (uploaded_with_ttl e) = (201, p)"
    using assms by (cases "snd (uploaded_with_ttl e)") simp
  from upload_route_created [OF uploaded_state [of e, unfolded this]]
  show ?thesis by (auto simp: empty_server_fields)
qed

lemma cleanup_loop_files:
  "files (fst (cleanup_loop xs s n)) = filter (\<lambda>f. f_id f \<notin> set (map f_id xs)) (files s)"
  by (induction xs s n rule: cleanup_loop.induct)
     (auto simp: delete_file_row_def unlink_quietly_def unlinkSync_def split: option.splits intro: filter_cong)

lemma rateLimit_exceeded:
  assumes "store (keyGenerator req) = Some (n, resetTime)" "now < resetTime" "max_hits options \<le> int n"
  shows "rateLimit options now req store
           = (store(keyGenerator req \<mapsto> (n + 1, resetTime)), Some (429, Error (message options)))"
  using assms by (simp add: rateLimit_def increment_def)

lemma blob_route_limited:
  assumes "downloadHits s (keyGenerator req) = Some (n, resetTime)" "now < resetTime"
    "RATE_LIMIT_MAX cfg \<le> int n"
  shows "blob_route cfg now req fileId s
           = (s\<lparr>downloadHits := (downloadHits s)(keyGenerator req \<mapsto> (n + 1, resetTime))\<rparr>,
              (429, Error ''Too many download requests from this IP, please try again later''))"
  using rateLimit_exceeded [of "downloadHits s" req n resetTime now "downloadLimiter cfg"] assms
  by (simp add: blob_route_def downloadLimiter_def)

lemma logRequest_authorization [simp]:
  "logRequest now (req\<lparr>rq_authorization := a\<rparr>) ev fid extra s = logRequest now req ev fid extra s"
  by (simp add: logRequest_def getClientIp_def getUserAgent_def)

lemma keyGenerator_authorization [simp]:
  "keyGenerator (req\<lparr>rq_authorization := a\<rparr>) = keyGenerator req"
  by (simp add: keyGenerator_def)




lemma limited_server_fields:
  "files limited_server = [file_of_bob]" "logs limited_server = []"
  "downloadHits limited_server ''203.0.113.7'' = Some (100, t_2026 + 900000)"
  "disk limited_server = [''uploads/123e4567-e89b-42d3-a456-426614174000.bin'' \<mapsto> [1, 2, 3]]"
  by (simp_all add: limited_server_def server_with_file_def empty_server_def)



lemma blob_limited_example:
  "blob_route default_config t_2026 anonymous_request some_id limited_server
     = (limited_server\<lparr>downloadHits := (downloadHits limited_server)(''203.0.113.7'' \<mapsto> (101, t_2026 + 900000))\<rparr>,
        (429, Error ''Too many download requests from this IP, please try again later''))"
  using blob_route_limited [of limited_server anonymous_request 100 "t_2026 + 900000" t_2026 default_config some_id]
  by (simp add: key_anonymous limited_server_fields default_config_fields)

lemma pad_digits_2: "pad_digits 2 n = [digit_char (n div 10 mod 10), digit_char (n mod 10)]"
  by (simp add: numeral_2_eq_2)

lemma pad_digits_3: "pad_digits 3 n = digit_char (n div 10 div 10 mod 10) # pad_digits 2 n"
  by (simp add: numeral_3_eq_3 numeral_2_eq_2)

lemma pad_digits_4: "pad_digits 4 n = pad_digits 2 (n div 10 div 10) @ pad_digits 2 n"
proof -
  have n4: "(4::nat) = Suc (Suc (Suc (Suc 0)))" by simp
  show ?thesis unfolding n4 numeral_2_eq_2 by simp
qed

lemma pad_digits_6: "pad_digits 6 n = pad_digits 4 (n div 10 div 10) @ pad_digits 2 n"
proof -
  have n6: "(6::nat) = Suc (Suc (Suc (Suc (Suc (Suc 0)))))" by simp
  have n4: "(4::nat) = Suc (Suc (Suc (Suc 0)))" by simp
  show ?thesis unfolding n4 n6 numeral_2_eq_2 by simp
qed

text \<open>The calendar arithmetic at known instants: the epoch, the millisecond before
  it, a leap day, and the two sides of the change from four to six digits of the year.\<close>

lemma iso_text_epoch: "iso_text 0 = ''1970-01-01T00:00:00.000Z''"
  apply (simp only: iso_text_def civil_from_days_def Let_def)
  apply (simp add: year_text_def pad_digits_2 pad_digits_4 pad_digits_3 pad_digits_6 digit_char_def)
  done

lemma iso_text_before_epoch: "iso_text (- 1) = ''1969-12-31T23:59:59.999Z''"
  apply (simp only: iso_text_def civil_from_days_def Let_def)
  apply (simp add: year_text_def pad_digits_2 pad_digits_4 pad_digits_3 pad_digits_6 digit_char_def)
  done

lemma iso_text_leap_day: "iso_text 951782400000 = ''2000-02-29T00:00:00.000Z''"
  apply (simp only: iso_text_def civil_from_days_def Let_def)
  apply (simp add: year_text_def pad_digits_2 pad_digits_4 pad_digits_3 pad_digits_6 digit_char_def)
  done

lemma iso_text_last_four_digit_year: "iso_text 253402300799999 = ''9999-12-31T23:59:59.999Z''"
  apply (simp only: iso_text_def civil_from_days_def Let_def)
  apply (simp add: year_text_def pad_digits_2 pad_digits_4 pad_digits_3 pad_digits_6 digit_char_def)
  done

lemma iso_text_first_six_digit_year: "iso_text 253402300800000 = ''+010000-01-01T00:00:00.000Z''"
  apply (simp only: iso_text_def civil_from_days_def Let_def)
  apply (simp add: year_text_def pad_digits_2 pad_digits_4 pad_digits_3 pad_digits_6 digit_char_def)
  done

lemma toISOString_valid: "toISOString (Some t) = Inr (iso_text t)"
  by (simp add: toISOString_def)

lemma iso_text_just_after: "iso_text (t_2026 + 1) = ''2026-11-02T00:00:00.001Z''"
  apply (simp only: iso_text_def civil_from_days_def Let_def t_2026_def)
  apply (simp add: year_text_def pad_digits_2 pad_digits_4 pad_digits_3 pad_digits_6 digit_char_def)
  done

lemma iso_text_far_future: "iso_text (t_2026 + 70000000 * 3600000) = ''+010012-05-25T16:00:00.000Z''"
  apply (simp only: iso_text_def civil_from_days_def Let_def t_2026_def)
  apply (simp add: year_text_def pad_digits_2 pad_digits_4 pad_digits_3 pad_digits_6 digit_char_def)
  done

lemma far_future_sorts_first:
  "text_less (iso_text (t_2026 + 70000000 * 3600000)) (iso_text (t_2026 + 1))"
  unfolding iso_text_just_after iso_text_far_future by simp

lemma parseInt_far: "parseInt ''70000000'' = Some 70000000"
  by (simp add: parseInt_def js_whitespace_def is_digit_def digit_val_def digits_value_def Let_def)

lemma uploaded_far:
  "snd (uploaded_with_ttl (Some ''70000000''))
     = (201, Uploaded some_id (iso_text (t_2026 + 70000000 * 3600000)))"
  by (simp add: uploaded_with_ttl_def upload_route_def auth_bob rateLimit_first uploadLimiter_def
      default_config_fields empty_server_fields upload_handler_def upload_fields_def truthy_def or_else_def
      hoursUntilExpiry_def parseInt_far expiry_date_def new_Date_def num_add_def num_mul_def t_2026_def
      insert_file_def Let_def)

lemma uploaded_far_row:
  "\<exists>row. files (fst (uploaded_with_ttl (Some ''70000000''))) = [row]
         \<and> f_id row = some_id
         \<and> f_path row = ''uploads/123e4567-e89b-42d3-a456-426614174000.bin''
         \<and> f_expiryTime row = t_2026 + 70000000 * 3600000
         \<and> disk (fst (uploaded_with_ttl (Some ''70000000''))) (f_path row) = Some [1, 2, 3]
         \<and> downloadHits (fst (uploaded_with_ttl (Some ''70000000''))) = Map.empty"
proof -
  have u: "upload_route default_config t_2026 some_id request_of_bob (Some [1, 2, 3])
       (upload_fields (Some ''70000000'')) empty_server
     = (fst (uploaded_with_ttl (Some ''70000000'')),
        (201, Uploaded some_id (iso_text (t_2026 + 70000000 * 3600000))))"
    using uploaded_far uploaded_state [of "Some ''70000000''"] by simp
  from upload_route_created [OF u]
  obtain row h where h: "hoursUntilExpiry default_config (b_expiresIn (upload_fields (Some ''70000000''))) = Some h"
    and f: "files (fst (uploaded_with_ttl (Some ''70000000''))) = files empty_server @ [row]"
    and i: "f_id row = some_id" and e: "f_expiryTime row = t_2026 + h * 3600000"
    and p: "f_path row = path_join (UPLOAD_DIR default_config) (some_id @ ''.bin'')"
    and k: "disk (fst (uploaded_with_ttl (Some ''70000000'')))
              = (disk empty_server)(path_join (UPLOAD_DIR default_config) (some_id @ ''.bin'') \<mapsto> [1, 2, 3])"
    and d: "downloadHits (fst (uploaded_with_ttl (Some ''70000000''))) = downloadHits empty_server"
    by blast
  from h have "h = 70000000"
    by (simp add: upload_fields_def hoursUntilExpiry_def truthy_def or_else_def parseInt_far)
  then show ?thesis
    using f i e p k d
    by (simp add: empty_server_fields default_config_fields path_join_def some_id_def)
qed

section \<open>Downloading a blob: not found and expired\<close>

text \<open>
  Claim C3, as the code has it. The blob route answers a well-formed id that the rate
  limiter admits as follows: with 404 (\<open>NotFound\<close>) when no row has the id; with 410
  (\<open>Expired\<close>, a different failure) when the row's \<open>expiryTime\<close> lies strictly before
  the clock reading; and a row uploaded with \<open>expiresIn = "0"\<close> is \<open>Expired\<close> for every
  download at a later clock reading. (The comparison is \<open>now > expiryTime\<close>: at
  \<open>expiryTime = now\<close> the blob is still served, see the counterexample.)
\<close>

theorem C3_blob_not_found_or_expired:
  assumes "uuidRegex_test fileId"
    and "rateLimit (downloadLimiter cfg) now req (downloadHits s) = (hits, None)"
  shows "(select_file fileId s = None \<longrightarrow>
            failure_of (snd (blob_route cfg now req fileId s)) = Some NotFound)
       \<and> (\<forall>file. select_file fileId s = Some file \<and> f_expiryTime file < now \<longrightarrow>
            failure_of (snd (blob_route cfg now req fileId s)) = Some Expired)
       \<and> Expired \<noteq> NotFound
       \<and> (\<forall>s0 created ureq buffer body p.
            upload_route cfg created fileId ureq (Some buffer) body s0 = (s, (201, p))
            \<and> b_expiresIn body = Some ''0'' \<and> created < now \<longrightarrow>
            failure_of (snd (blob_route cfg now req fileId s)) = Some Expired)"
proof (intro conjI allI impI)
  note r = blob_route_admitted [OF assms(2)]
  show "failure_of (snd (blob_route cfg now req fileId s)) = Some NotFound"
    if "select_file fileId s = None"
    using that assms(1) by (simp add: r blob_handler_missing)
  show "failure_of (snd (blob_route cfg now req fileId s)) = Some Expired"
    if "select_file fileId s = Some f \<and> f_expiryTime f < now" for f
    using that assms(1) by (simp add: r blob_handler_expired [where f = f])
  show "Expired \<noteq> NotFound" by simp
  show "failure_of (snd (blob_route cfg now req fileId s)) = Some Expired"
    if u: "upload_route cfg created fileId ureq (Some buffer) body s0 = (s, (201, p))
           \<and> b_expiresIn body = Some ''0'' \<and> created < now"
    for s0 created ureq buffer body p
  proof -
    from u upload_route_created [of cfg created fileId ureq "Some buffer" body s0 s p]
    obtain row h where h: "hoursUntilExpiry cfg (b_expiresIn body) = Some h"
      and m: "select_file fileId s0 = None" and f: "files s = files s0 @ [row]"
      and i: "f_id row = fileId" and e: "f_expiryTime row = created + h * 3600000"
      by blast
    from h u have "h = 0" by (simp add: hours_zero)
    with e u have x: "f_expiryTime row < now" by simp
    have "select_file fileId s = Some row" using m f i by (rule select_file_appended)
    then show ?thesis using x assms(1) by (simp add: r blob_handler_expired [where f = row])
  qed
qed

theorem C3_witness:
  "uuidRegex_test some_id
   \<and> rateLimit (downloadLimiter default_config) (t_2026 + 1) anonymous_request (downloadHits empty_server)
       = ([''203.0.113.7'' \<mapsto> (1, t_2026 + 1 + 900000)], None)
   \<and> select_file some_id empty_server = None
   \<and> failure_of (snd (blob_route default_config (t_2026 + 1) anonymous_request some_id empty_server)) = Some NotFound
   \<and> rateLimit (downloadLimiter default_config) (t_2026 + 1) anonymous_request
         (downloadHits (fst (uploaded_with_ttl (Some ''0''))))
       = ([''203.0.113.7'' \<mapsto> (1, t_2026 + 1 + 900000)], None)
   \<and> (\<exists>f. select_file some_id (fst (uploaded_with_ttl (Some ''0''))) = Some f \<and> f_expiryTime f < t_2026 + 1)
   \<and> upload_route default_config t_2026 some_id request_of_bob (Some [1, 2, 3])
         (upload_fields (Some ''0'')) empty_server
       = (fst (uploaded_with_ttl (Some ''0'')), (201, Uploaded some_id (iso_text t_2026)))
   \<and> b_expiresIn (upload_fields (Some ''0'')) = Some ''0''
   \<and> t_2026 < t_2026 + 1
   \<and> failure_of (snd (blob_route default_config (t_2026 + 1) anonymous_request some_id
                          (fst (uploaded_with_ttl (Some ''0''))))) = Some Expired"
proof -
  obtain row where row: "select_file some_id (fst (uploaded_with_ttl (Some ''0''))) = Some row"
    "f_expiryTime row = t_2026" "downloadHits (fst (uploaded_with_ttl (Some ''0''))) = Map.empty"
    using uploaded_ttl0_row by blast
  have a1: "rateLimit (downloadLimiter default_config) (t_2026 + 1) anonymous_request (downloadHits empty_server)
       = ([''203.0.113.7'' \<mapsto> (1, t_2026 + 1 + 900000)], None)"
    by (simp add: empty_server_fields admitted_first)
  have a2: "rateLimit (downloadLimiter default_config) (t_2026 + 1) anonymous_request
         (downloadHits (fst (uploaded_with_ttl (Some ''0''))))
       = ([''203.0.113.7'' \<mapsto> (1, t_2026 + 1 + 900000)], None)"
    by (simp add: row(3) admitted_first)
  have m: "select_file some_id empty_server = None"
    by (simp add: select_file_def empty_server_fields)
  have b: "b_expiresIn (upload_fields (Some ''0'')) = Some ''0''"
    by (simp add: upload_fields_def)
  have x: "f_expiryTime row < t_2026 + 1" using row(2) by simp
  note t1 = C3_blob_not_found_or_expired [OF uuid_some_id a1]
  note t2 = C3_blob_not_found_or_expired [OF uuid_some_id a2]
  have e: "failure_of (snd (blob_route default_config (t_2026 + 1) anonymous_request some_id
                          (fst (uploaded_with_ttl (Some ''0''))))) = Some Expired"
    using t2 uploaded_ttl0_state b by force
  have n: "failure_of (snd (blob_route default_config (t_2026 + 1) anonymous_request some_id empty_server)) = Some NotFound"
    using t1 m by blast
  show ?thesis
    using uuid_some_id a1 a2 m n row(1) x uploaded_ttl0_state b e by (intro conjI exI [of _ row]) simp_all
qed

text \<open>The claim as stated fails at \<open>expiryTime = now\<close>: the row exists, its
  \<open>expiryTime\<close> is not after the clock reading, and the download succeeds.\<close>

theorem C3_counterexample:
  "select_file some_id server_with_file = Some file_of_bob
   \<and> f_expiryTime file_of_bob \<le> t_2026 + 3600000
   \<and> failure_of (snd (blob_route default_config (t_2026 + 3600000) anonymous_request some_id server_with_file))
       \<noteq> Some Expired"
proof -
  have s: "select_file some_id server_with_file = Some file_of_bob"
    by (simp add: select_file_def server_with_file_def empty_server_def file_of_bob_def)
  have e: "f_expiryTime file_of_bob = t_2026 + 3600000" by (simp add: file_of_bob_def)
  have d: "disk server_with_file (f_path file_of_bob) = Some [1, 2, 3]"
    by (simp add: server_with_file_def empty_server_def file_of_bob_def)
  have a: "rateLimit (downloadLimiter default_config) (t_2026 + 3600000) anonymous_request (downloadHits server_with_file)
       = ([''203.0.113.7'' \<mapsto> (1, t_2026 + 3600000 + 900000)], None)"
    by (simp add: server_with_file_def empty_server_def admitted_first)
  have "fst (snd (blob_handler (t_2026 + 3600000) anonymous_request some_id
           (server_with_file\<lparr>downloadHits := [''203.0.113.7'' \<mapsto> (1, t_2026 + 3600000 + 900000)]\<rparr>))) = 200"
    by (rule blob_handler_served [where f = file_of_bob and bytes = "[1, 2, 3]"])
       (simp_all add: uuid_some_id s e d)
  then have "failure_of (snd (blob_route default_config (t_2026 + 3600000) anonymous_request some_id server_with_file)) = None"
    by (simp add: blob_route_admitted [OF a] failure_of_200)
  then show ?thesis using s e by simp
qed

section \<open>Deleting a file one does not own\<close>

text \<open>
  Claim C4, as the code has it. For every row of \<open>files\<close> and every authenticated
  requester whose id differs from the row's \<open>ownerId\<close>, the delete route answers 404
  with \<open>File not found or you do not own this file\<close> (the failure \<open>NotFound\<close>, not
  \<open>Forbidden\<close>), and the state of the server, the row and its bytes included, is
  unchanged.
\<close>

theorem C4_delete_by_non_owner:
  assumes "authenticateToken cfg req = Inr usr"
    and "primary_key s" and "file \<in> set (files s)" and "f_ownerId file \<noteq> u_id usr"
  shows "delete_route cfg req (f_id file) s = (s, (404, Error ''File not found or you do not own this file''))
         \<and> failure_of (snd (delete_route cfg req (f_id file) s)) = Some NotFound"
  using assms by (simp add: delete_route_def select_owned_none failure_of_def)

theorem C4_witness:
  "authenticateToken default_config request_of_alice = Inr alice
   \<and> primary_key server_with_file \<and> file_of_bob \<in> set (files server_with_file)
   \<and> f_ownerId file_of_bob \<noteq> u_id alice
   \<and> delete_route default_config request_of_alice (f_id file_of_bob) server_with_file
       = (server_with_file, (404, Error ''File not found or you do not own this file''))
   \<and> failure_of (snd (delete_route default_config request_of_alice (f_id file_of_bob) server_with_file)) = Some NotFound"
proof -
  have 1: "file_of_bob \<in> set (files server_with_file)"
    by (simp add: server_with_file_def empty_server_def)
  have 2: "f_ownerId file_of_bob \<noteq> u_id alice"
    by (simp add: file_of_bob_def alice_def)
  show ?thesis
    using C4_delete_by_non_owner [OF auth_alice pk_example 1 2] auth_alice pk_example 1 2 by blast
qed

text \<open>The claim as stated fails: alice, authenticated, deletes the file of bob and
  the failure is not \<open>Forbidden\<close>.\<close>

theorem C4_counterexample:
  "authenticateToken default_config request_of_alice = Inr alice
   \<and> file_of_bob \<in> set (files server_with_file)
   \<and> f_ownerId file_of_bob \<noteq> u_id alice
   \<and> failure_of (snd (delete_route default_config request_of_alice (f_id file_of_bob) server_with_file)) \<noteq> Some Forbidden"
proof -
  have 1: "file_of_bob \<in> set (files server_with_file)"
    by (simp add: server_with_file_def empty_server_def)
  have 2: "f_ownerId file_of_bob \<noteq> u_id alice"
    by (simp add: file_of_bob_def alice_def)
  have "select_owned_file (f_id file_of_bob) (u_id alice) server_with_file = None"
    using pk_example 1 2 by (rule select_owned_none)
  then have "delete_route default_config request_of_alice (f_id file_of_bob) server_with_file
       = (server_with_file, (404, Error ''File not found or you do not own this file''))"
    by (simp add: delete_route_def auth_alice)
  then show ?thesis using auth_alice 1 2 by (simp add: failure_of_def)
qed

section \<open>What the delete route reveals\<close>

text \<open>
  Claim C10. On the delete route, an authenticated requester who does not own an
  existing file gets exactly the result (the same response, the state unchanged) that
  the same requester gets for an id no row has: the route does not reveal to a non-owner
  whether an id exists.
\<close>

theorem C10_delete_reveals_nothing:
  assumes "authenticateToken cfg req = Inr usr"
    and "primary_key s" and "f \<in> set (files s)" and "f_ownerId f \<noteq> u_id usr"
    and "select_file missing s = None"
  shows "delete_route cfg req (f_id f) s = delete_route cfg req missing s
         \<and> fst (delete_route cfg req (f_id f) s) = s
         \<and> failure_of (snd (delete_route cfg req (f_id f) s)) = Some NotFound"
  using assms by (simp add: delete_route_def select_owned_none select_owned_missing)

theorem C10_witness:
  "authenticateToken default_config request_of_alice = Inr alice
   \<and> primary_key server_with_file \<and> file_of_bob \<in> set (files server_with_file)
   \<and> f_ownerId file_of_bob \<noteq> u_id alice
   \<and> select_file other_id server_with_file = None
   \<and> delete_route default_config request_of_alice (f_id file_of_bob) server_with_file
       = delete_route default_config request_of_alice other_id server_with_file
   \<and> fst (delete_route default_config request_of_alice (f_id file_of_bob) server_with_file) = server_with_file
   \<and> failure_of (snd (delete_route default_config request_of_alice (f_id file_of_bob) server_with_file)) = Some NotFound"
proof -
  have 1: "file_of_bob \<in> set (files server_with_file)"
    by (simp add: server_with_file_def empty_server_def)
  have 2: "f_ownerId file_of_bob \<noteq> u_id alice"
    by (simp add: file_of_bob_def alice_def)
  have 3: "select_file other_id server_with_file = None"
    by (simp add: select_file_def server_with_file_def empty_server_def file_of_bob_def some_id_def other_id_def)
  show ?thesis
    using C10_delete_reveals_nothing [OF auth_alice pk_example 1 2 3] auth_alice pk_example 1 2 3 by blast
qed

section \<open>The expiry of an uploaded file\<close>

text \<open>
  Claim C8, as the code has it. Every row the upload route commits has
  \<open>expiryTime = createdAt + hours * 3600000\<close>, where \<open>hours\<close> is \<open>parseInt(expiresIn)\<close>
  when \<open>expiresIn\<close> is a non-empty string and the configured default otherwise. So
  \<open>expiryTime > createdAt\<close> holds exactly when \<open>hours > 0\<close>; with \<open>expiresIn = "0"\<close> the
  row is committed with \<open>expiryTime = createdAt\<close>.
\<close>

theorem C8_expiry_of_committed_record:
  assumes "upload_route cfg now fileId req file body s = (s', r)" and "files s' \<noteq> files s"
  shows "\<exists>row h. files s' = files s @ [row]
           \<and> hoursUntilExpiry cfg (b_expiresIn body) = Some h
           \<and> f_createdAt row = now
           \<and> f_expiryTime row = now + h * 3600000
           \<and> (f_createdAt row < f_expiryTime row \<longleftrightarrow> 0 < h)
           \<and> (b_expiresIn body = Some ''0'' \<longrightarrow> f_expiryTime row = f_createdAt row)
           \<and> (\<not> truthy (b_expiresIn body) \<longrightarrow> DEFAULT_EXPIRY_HOURS cfg = Some h)"
proof -
  have "fst r = 201"
    using assms
    by (auto simp: upload_route_def upload_handler_def insert_file_def Let_def
        split: sum.splits option.splits if_splits prod.splits)
  then obtain p where "r = (201, p)" by (cases r) simp
  from upload_route_created [OF assms(1) [unfolded this]]
  obtain row h where *: "hoursUntilExpiry cfg (b_expiresIn body) = Some h"
    "files s' = files s @ [row]" "f_createdAt row = now" "f_expiryTime row = now + h * 3600000"
    by blast
  have "b_expiresIn body = Some ''0'' \<Longrightarrow> h = 0" using *(1) by (simp add: hours_zero)
  moreover have "\<not> truthy (b_expiresIn body) \<Longrightarrow> DEFAULT_EXPIRY_HOURS cfg = Some h"
    using *(1) by (simp add: hoursUntilExpiry_def)
  ultimately show ?thesis using * by auto
qed

theorem C8_witness:
  "upload_route default_config t_2026 some_id request_of_bob (Some [1, 2, 3]) (upload_fields None) empty_server
     = (fst (uploaded_with_ttl None), snd (uploaded_with_ttl None))
   \<and> files (fst (uploaded_with_ttl None)) \<noteq> files empty_server
   \<and> \<not> truthy (b_expiresIn (upload_fields None))
   \<and> (\<exists>row. files (fst (uploaded_with_ttl None)) = files empty_server @ [row]
          \<and> f_createdAt row = t_2026 \<and> f_expiryTime row = t_2026 + 24 * 3600000
          \<and> f_createdAt row < f_expiryTime row)
   \<and> DEFAULT_EXPIRY_HOURS default_config = Some 24
   \<and> upload_route default_config t_2026 some_id request_of_bob (Some [1, 2, 3]) (upload_fields (Some ''0'')) empty_server
     = (fst (uploaded_with_ttl (Some ''0'')), snd (uploaded_with_ttl (Some ''0'')))
   \<and> files (fst (uploaded_with_ttl (Some ''0''))) \<noteq> files empty_server
   \<and> b_expiresIn (upload_fields (Some ''0'')) = Some ''0''
   \<and> (\<exists>row. files (fst (uploaded_with_ttl (Some ''0''))) = files empty_server @ [row]
          \<and> f_expiryTime row = f_createdAt row)"
proof -
  have c1: "files (fst (uploaded_with_ttl None)) \<noteq> files empty_server"
    by (rule uploaded_changes) (simp add: uploaded_default)
  have c2: "files (fst (uploaded_with_ttl (Some ''0''))) \<noteq> files empty_server"
    by (rule uploaded_changes) (simp add: uploaded_ttl0)
  have n: "\<not> truthy (b_expiresIn (upload_fields None))"
    by (simp add: upload_fields_def truthy_def)
  have z: "b_expiresIn (upload_fields (Some ''0'')) = Some ''0''"
    by (simp add: upload_fields_def)
  have h: "hoursUntilExpiry default_config (b_expiresIn (upload_fields None)) = Some 24"
    by (simp add: upload_fields_def hours_default)
  from C8_expiry_of_committed_record [OF uploaded_state [of None] c1] h
  have w1: "\<exists>row. files (fst (uploaded_with_ttl None)) = files empty_server @ [row]
          \<and> f_createdAt row = t_2026 \<and> f_expiryTime row = t_2026 + 24 * 3600000
          \<and> f_createdAt row < f_expiryTime row"
    by auto
  from C8_expiry_of_committed_record [OF uploaded_state [of "Some ''0''"] c2] z
  have w2: "\<exists>row. files (fst (uploaded_with_ttl (Some ''0''))) = files empty_server @ [row]
          \<and> f_expiryTime row = f_createdAt row"
    by auto
  show ?thesis
    using uploaded_state [of None] uploaded_state [of "Some ''0''"] c1 c2 n z w1 w2
    by (simp add: default_config_fields)
qed

text \<open>The claim as stated fails for \<open>expiresIn = "0"\<close>: the upload succeeds and the
  committed row does not have \<open>createdAt < expiryTime\<close>.\<close>

theorem C8_counterexample:
  "snd (uploaded_with_ttl (Some ''0'')) = (201, Uploaded some_id (iso_text t_2026))
   \<and> (\<exists>row. files (fst (uploaded_with_ttl (Some ''0''))) = [row] \<and> \<not> f_createdAt row < f_expiryTime row)"
  using uploaded_ttl0 uploaded_ttl0_row by auto

section \<open>The download counter\<close>

text \<open>
  Claim C9. What each operation of the server does to the rows of \<open>files\<close>: an upload
  leaves them alone or appends one row whose \<open>downloadCount\<close> is 0; a blob download
  that succeeds (status 200) adds exactly 1 to the \<open>downloadCount\<close> of the row with the
  requested id and changes nothing else; a blob download that fails (invalid id, not
  found, expired, bytes missing, rate limited), the metadata route and the listing leave
  every row as it is; the delete route and the cleanup script only remove rows. So
  \<open>downloadCount\<close> starts at 0, grows by one per successful download and by nothing
  else, and every other field of a row never changes.
\<close>

theorem C9_download_count:
  "(case op of
      Upload req file body fileId \<Rightarrow>
        files (fst (step cfg now op s)) = files s
        \<or> (\<exists>row. files (fst (step cfg now op s)) = files s @ [row] \<and> f_downloadCount row = 0)
    | GetMetadata req fileId \<Rightarrow> files (fst (step cfg now op s)) = files s
    | GetBlob req fileId \<Rightarrow>
        files (fst (step cfg now op s))
          = (if status_of (snd (step cfg now op s)) = 200 then map (count_download fileId) (files s)
             else files s)
    | ListMyFiles req \<Rightarrow> files (fst (step cfg now op s)) = files s
    | DeleteMyFile req fileId \<Rightarrow>
        files (fst (step cfg now op s)) = files s
        \<or> files (fst (step cfg now op s)) = filter (\<lambda>f. f_id f \<noteq> fileId) (files s)
    | Cleanup \<Rightarrow>
        files (fst (step cfg now op s))
          = filter (\<lambda>f. f_id f \<notin> set (map f_id (select_expired now s))) (files s))"
proof (cases op)
  case (Upload req buffer body fileId)
  obtain s' r where u: "upload_route cfg now fileId req buffer body s = (s', r)" by (cases "upload_route cfg now fileId req buffer body s") blast
  show ?thesis
  proof (cases "files s' = files s")
    case True
    then show ?thesis using Upload u by (simp add: step_def)
  next
    case False
    have "fst r = 201"
      using u False
      by (auto simp: upload_route_def upload_handler_def insert_file_def Let_def
          split: sum.splits option.splits if_splits prod.splits)
    then obtain p where "r = (201, p)" by (cases r) simp
    from upload_route_created [OF u [unfolded this]]
    show ?thesis using Upload u by (auto simp: step_def)
  qed
next
  case (GetMetadata req fileId)
  then show ?thesis by (simp add: step_def metadata_route_def split: option.splits)
next
  case (GetBlob req fileId)
  then show ?thesis
    by (auto simp: step_def status_of_def blob_route_def blob_handler_def increment_downloadCount_def
        count_download_def dest!: rateLimit_limited split: option.splits prod.splits)
next
  case (ListMyFiles req)
  then show ?thesis by (simp add: step_def list_route_def split: sum.splits)
next
  case (DeleteMyFile req fileId)
  then show ?thesis
    by (auto simp: step_def delete_route_def delete_file_row_def unlink_quietly_def unlinkSync_def
        split: sum.splits option.splits)
next
  case Cleanup
  then show ?thesis
    by (auto simp: step_def cleanupExpiredFiles_def Let_def cleanup_loop_files)
qed

section \<open>The two public routes and the download limiter\<close>




section \<open>Rate-limited requests and the audit log\<close>

text \<open>
  Claim C6 at a concrete input. The address of \<open>anonymous_request\<close> has 100 hits in the
  current window, the download ceiling: its next blob request fails with \<open>RateLimited\<close>
  while the files and the disk stay as they are, but the log, empty before, is still
  empty afterwards: no \<open>RATE_LIMITED\<close> event is written.
\<close>

theorem C6_rate_limited_request_leaves_no_audit_event:
  "downloadHits limited_server (keyGenerator anonymous_request) = Some (100, t_2026 + 900000)
   \<and> RATE_LIMIT_MAX default_config = 100
   \<and> failure_of (snd (blob_route default_config t_2026 anonymous_request some_id limited_server)) = Some RateLimited
   \<and> files (fst (blob_route default_config t_2026 anonymous_request some_id limited_server)) = files limited_server
   \<and> disk (fst (blob_route default_config t_2026 anonymous_request some_id limited_server)) = disk limited_server
   \<and> logs limited_server = []
   \<and> logs (fst (blob_route default_config t_2026 anonymous_request some_id limited_server)) = []"
  by (simp add: blob_limited_example key_anonymous limited_server_fields default_config_fields)

text \<open>No operation of the server ever writes a \<open>RATE_LIMITED\<close> event.\<close>

lemma rle_logEvent:
  "ev \<noteq> RATE_LIMITED \<Longrightarrow> rate_limited_events (logEvent now ip ua fid ev extra s) = rate_limited_events s"
  by (simp add: rate_limited_events_def logEvent_def Let_def split: option.splits)

lemma rle_logRequest:
  "ev \<noteq> RATE_LIMITED \<Longrightarrow> rate_limited_events (logRequest now req ev fid extra s) = rate_limited_events s"
  by (simp add: logRequest_def rle_logEvent)

lemma rle_frame [simp]:
  "rate_limited_events (s\<lparr>files := f\<rparr>) = rate_limited_events s"
  "rate_limited_events (s\<lparr>disk := d\<rparr>) = rate_limited_events s"
  "rate_limited_events (s\<lparr>downloadHits := h\<rparr>) = rate_limited_events s"
  "rate_limited_events (s\<lparr>uploadHits := h\<rparr>) = rate_limited_events s"
  by (simp_all add: rate_limited_events_def)

lemma rle_delete_file_row [simp]:
  "rate_limited_events (delete_file_row fileId s) = rate_limited_events s"
proof -
  have "length (filter (\<lambda>l. l_eventType l = RATE_LIMITED)
          (map (\<lambda>l. if l_fileId l = Some fileId then l\<lparr>l_fileId := None\<rparr> else l) ls))
        = length (filter (\<lambda>l. l_eventType l = RATE_LIMITED) ls)" for ls :: "Log list"
    by (induction ls) auto
  then show ?thesis by (simp add: rate_limited_events_def delete_file_row_def)
qed

lemma rle_unlink_quietly [simp]:
  "rate_limited_events (unlink_quietly p s) = rate_limited_events s"
  by (simp add: unlink_quietly_def unlinkSync_def split: option.splits)

lemma rle_cleanup_loop:
  "rate_limited_events (fst (cleanup_loop xs s n)) = rate_limited_events s"
  by (induction xs s n rule: cleanup_loop.induct) simp_all

lemma rle_increment [simp]:
  "rate_limited_events (increment_downloadCount fileId s) = rate_limited_events s"
  by (simp add: increment_downloadCount_def)

lemma no_route_logs_rate_limited:
  "rate_limited_events (fst (step cfg now op s)) = rate_limited_events s"
proof (cases op)
  case (Upload req buffer body fileId)
  then show ?thesis
    by (auto simp: step_def upload_route_def upload_handler_def insert_file_def Let_def rle_logRequest
        split: sum.splits option.splits prod.splits)
next
  case (GetMetadata req fileId)
  then show ?thesis by (simp add: step_def metadata_route_def rle_logRequest split: option.splits)
next
  case (GetBlob req fileId)
  then show ?thesis
    by (auto simp: step_def blob_route_def blob_handler_def rle_logRequest split: option.splits prod.splits)
next
  case (ListMyFiles req)
  then show ?thesis by (simp add: step_def list_route_def split: sum.splits)
next
  case (DeleteMyFile req fileId)
  then show ?thesis by (simp add: step_def delete_route_def split: sum.splits option.splits)
next
  case Cleanup
  then show ?thesis by (simp add: step_def cleanupExpiredFiles_def Let_def rle_cleanup_loop)
qed

section \<open>The cleanup script\<close>

text \<open>
  Claim C5 at a concrete input. Bob uploads a file with \<open>expiresIn = "70000000"\<close> (hours);
  the route answers 201 with the expiry \<open>+010012-05-25T16:00:00.000Z\<close>. One millisecond
  later the row has not expired and the blob route serves it, yet the cleanup script run
  at that moment selects the row (the text \<open>+010012-...\<close> sorts before \<open>2026-...\<close>),
  removes it and its bytes, and counts one deleted file.
\<close>

theorem C5_cleanup_deletes_unexpired_record:
  "snd (uploaded_with_ttl (Some ''70000000'')) = (201, Uploaded some_id ''+010012-05-25T16:00:00.000Z'')
   \<and> (\<exists>row. files (fst (uploaded_with_ttl (Some ''70000000''))) = [row] \<and> t_2026 + 1 < f_expiryTime row)
   \<and> fst (snd (blob_route default_config (t_2026 + 1) anonymous_request some_id
                 (fst (uploaded_with_ttl (Some ''70000000''))))) = 200
   \<and> files (fst (cleanupExpiredFiles (t_2026 + 1) (fst (uploaded_with_ttl (Some ''70000000''))))) = []
   \<and> disk (fst (cleanupExpiredFiles (t_2026 + 1) (fst (uploaded_with_ttl (Some ''70000000'')))))
        ''uploads/123e4567-e89b-42d3-a456-426614174000.bin'' = None
   \<and> snd (cleanupExpiredFiles (t_2026 + 1) (fst (uploaded_with_ttl (Some ''70000000'')))) = 1"
proof -
  define U where "U = fst (uploaded_with_ttl (Some ''70000000''))"
  obtain row where row: "files U = [row]" "f_id row = some_id"
    "f_path row = ''uploads/123e4567-e89b-42d3-a456-426614174000.bin''"
    "f_expiryTime row = t_2026 + 70000000 * 3600000"
    "disk U (f_path row) = Some [1, 2, 3]" "downloadHits U = Map.empty"
    using uploaded_far_row unfolding U_def by blast
  have later: "t_2026 + 1 < f_expiryTime row" by (simp add: row(4))
  have sel: "select_file some_id U = Some row" by (simp add: select_file_def row)
  have adm: "rateLimit (downloadLimiter default_config) (t_2026 + 1) anonymous_request (downloadHits U)
       = ([''203.0.113.7'' \<mapsto> (1, t_2026 + 1 + 900000)], None)"
    by (simp add: row(6) admitted_first)
  have "fst (snd (blob_handler (t_2026 + 1) anonymous_request some_id
           (U\<lparr>downloadHits := [''203.0.113.7'' \<mapsto> (1, t_2026 + 1 + 900000)]\<rparr>))) = 200"
    by (rule blob_handler_served [where f = row and bytes = "[1, 2, 3]"])
       (use later in \<open>simp_all add: uuid_some_id sel row(5)\<close>)
  then have served: "fst (snd (blob_route default_config (t_2026 + 1) anonymous_request some_id U)) = 200"
    by (simp add: blob_route_admitted [OF adm])
  have ex: "select_expired (t_2026 + 1) U = [row]"
    using far_future_sorts_first by (simp add: select_expired_def row(1,4))
  have cl: "cleanupExpiredFiles (t_2026 + 1) U
              = (delete_file_row some_id (unlink_quietly (f_path row) U), 1)"
    by (simp add: cleanupExpiredFiles_def ex row(2))
  have f: "files (fst (cleanupExpiredFiles (t_2026 + 1) U)) = []"
    by (simp add: cl delete_file_row_def unlink_quietly_def unlinkSync_def row split: option.splits)
  have d: "disk (fst (cleanupExpiredFiles (t_2026 + 1) U))
        ''uploads/123e4567-e89b-42d3-a456-426614174000.bin'' = None"
    using row(5) by (simp add: cl delete_file_row_def unlink_quietly_def unlinkSync_def row(3))
  have up: "snd (uploaded_with_ttl (Some ''70000000'')) = (201, Uploaded some_id ''+010012-05-25T16:00:00.000Z'')"
    using uploaded_far by (simp only: iso_text_far_future)
  show ?thesis
    using up row(1) later served f d cl by (simp add: U_def)
qed

text \<open>What the script does in general: it removes the rows whose \<open>expiryTime\<close> text
  sorts before the text of the clock reading, keeps the others as they are, reports the
  number of rows it selected, and a second run at the same clock reading removes
  nothing.\<close>

lemma cleanup_count: "snd (cleanup_loop xs s n) = n + length xs"
  by (induction xs s n rule: cleanup_loop.induct) simp_all

lemma cleanup_deleted_count:
  "snd (cleanupExpiredFiles now s) = length (select_expired now s)"
  by (simp add: cleanupExpiredFiles_def Let_def cleanup_count)

lemma cleanup_files_by_text:
  assumes "primary_key s"
  shows "files (fst (cleanupExpiredFiles now s))
           = filter (\<lambda>f. \<not> text_less (iso_text (f_expiryTime f)) (iso_text now)) (files s)"
proof -
  let ?P = "\<lambda>f. text_less (iso_text (f_expiryTime f)) (iso_text now)"
  have inj: "inj_on f_id (set (files s))"
    using assms by (simp add: primary_key_def distinct_map)
  have "f_id f \<in> set (map f_id (filter ?P (files s))) \<longleftrightarrow> ?P f" if "f \<in> set (files s)" for f
    using that inj by (auto dest: inj_onD)
  then have "filter (\<lambda>f. f_id f \<notin> set (map f_id (filter ?P (files s)))) (files s)
               = filter (\<lambda>f. \<not> ?P f) (files s)"
    by (intro filter_cong) auto
  moreover have "files s = filter (\<lambda>f. \<not> ?P f) (files s)" if "filter ?P (files s) = []"
    using that by (simp add: filter_empty_conv filter_id_conv)
  ultimately show ?thesis
    by (auto simp: cleanupExpiredFiles_def Let_def cleanup_loop_files select_expired_def)
qed

lemma cleanup_again:
  assumes "primary_key s"
  shows "cleanupExpiredFiles now (fst (cleanupExpiredFiles now s)) = (fst (cleanupExpiredFiles now s), 0)"
proof -
  have "select_expired now (fst (cleanupExpiredFiles now s)) = []"
    by (simp add: select_expired_def cleanup_files_by_text [OF assms] filter_empty_conv)
  then show ?thesis by (simp add: cleanupExpiredFiles_def [of now "fst (cleanupExpiredFiles now s)"])
qed

section \<open>The key never leaves the browser\<close>

subsection \<open>The client: requests and links\<close>

lemma loadMyFiles_requests:
  "fst (snd (loadMyFiles p token fetch srv)) = []
   \<or> fst (snd (loadMyFiles p token fetch srv))
        = [\<lparr>h_method = ''GET'', h_url = ''/api/myfiles'',
            h_headers = [(''Authorization'', ''Bearer '' @ or_else token [])], h_body = []\<rparr>]"
  by (simp add: loadMyFiles_def getMyFiles_def split: prod.splits option.splits)

lemma upload_click_key_independent:
  "fst (upload_click origin token p keys chosen k1 iv c fetch srv)
     = fst (upload_click origin token p keys chosen k2 iv c fetch srv)
   \<and> sent (snd (upload_click origin token p keys chosen k1 iv c fetch srv))
     = sent (snd (upload_click origin token p keys chosen k2 iv c fetch srv))
   \<and> received (snd (upload_click origin token p keys chosen k1 iv c fetch srv))
     = received (snd (upload_click origin token p keys chosen k2 iv c fetch srv))"
  by (simp add: upload_click_def Let_def split: option.splits sum.splits prod.splits)

lemma upload_click_requests:
  "sent (snd (upload_click origin token p keys (Some f) k iv c fetch srv)) = []
   \<or> (\<exists>rest. sent (snd (upload_click origin token p keys (Some f) k iv c fetch srv)) =
          \<lparr>h_method = ''POST'', h_url = ''/api/upload'',
            h_headers = [(''Authorization'', ''Bearer '' @ or_else token [])],
            h_body = [(''file'', FormBlob c),
                      (''iv'', FormText (btoa (String_fromCharCode iv))),
                      (''filename'', FormText (cf_name f)),
                      (''mimetype'', FormText (or_else (Some (cf_type f)) ''application/octet-stream'')),
                      (''filesize'', FormText (nat_toString (cf_size f)))]\<rparr> # rest
        \<and> (rest = [] \<or> rest = [\<lparr>h_method = ''GET'', h_url = ''/api/myfiles'',
            h_headers = [(''Authorization'', ''Bearer '' @ or_else token [])], h_body = []\<rparr>]))"
proof (cases "uploadFile token c iv (cf_name f)
                  (or_else (Some (cf_type f)) ''application/octet-stream'') (cf_size f) None")
  case (Inl e)
  then show ?thesis by (simp add: upload_click_def)
next
  case (Inr req)
  then have req: "req = \<lparr>h_method = ''POST'', h_url = ''/api/upload'',
            h_headers = [(''Authorization'', ''Bearer '' @ or_else token [])],
            h_body = [(''file'', FormBlob c),
                      (''iv'', FormText (btoa (String_fromCharCode iv))),
                      (''filename'', FormText (cf_name f)),
                      (''mimetype'', FormText (or_else (Some (cf_type f)) ''application/octet-stream'')),
                      (''filesize'', FormText (nat_toString (cf_size f)))]\<rparr>"
    by (simp add: uploadFile_def split: if_splits)
  obtain srv1 answer where a: "fetch req srv = (srv1, answer)" by (cases "fetch req srv") blast
  obtain srv2 reqs rs where l: "loadMyFiles p token fetch srv1 = (srv2, reqs, rs)"
    by (cases "loadMyFiles p token fetch srv1") blast
  have "reqs = [] \<or> reqs = [\<lparr>h_method = ''GET'', h_url = ''/api/myfiles'',
            h_headers = [(''Authorization'', ''Bearer '' @ or_else token [])], h_body = []\<rparr>]"
    using loadMyFiles_requests [of p token fetch srv1] l by simp
  then show ?thesis
    unfolding req [symmetric]
    using Inr a l by (auto simp: upload_click_def Let_def split: option.splits)
qed

text \<open>Where the encoded key goes: into the share link, after the \<open>#\<close>, and into the item
  \<open>file_keys\<close> of \<open>sessionStorage\<close>, which stays in the browser.\<close>

lemma upload_click_link:
  "(link (snd (upload_click origin token p keys chosen k1 iv c fetch srv)) = None
    \<and> link (snd (upload_click origin token p keys chosen k2 iv c fetch srv)) = None
    \<and> file_keys (snd (upload_click origin token p keys chosen k1 iv c fetch srv)) = keys
    \<and> file_keys (snd (upload_click origin token p keys chosen k2 iv c fetch srv)) = keys)
   \<or> (\<exists>fileId.
         link (snd (upload_click origin token p keys chosen k1 iv c fetch srv))
           = Some (origin @ ''/file/'' @ fileId @ ''#'' @ toBase64Url k1)
       \<and> link (snd (upload_click origin token p keys chosen k2 iv c fetch srv))
           = Some (origin @ ''/file/'' @ fileId @ ''#'' @ toBase64Url k2)
       \<and> file_keys (snd (upload_click origin token p keys chosen k1 iv c fetch srv))
           = keys(fileId \<mapsto> toBase64Url k1)
       \<and> file_keys (snd (upload_click origin token p keys chosen k2 iv c fetch srv))
           = keys(fileId \<mapsto> toBase64Url k2))"
  by (simp add: upload_click_def Let_def shareLink_def split: option.splits sum.splits prod.splits)

lemma sent_path_prefix:
  assumes "CHR ''#'' \<notin> set p" "CHR ''?'' \<notin> set p"
  shows "sent_path (p @ CHR ''#'' # rest) = p"
proof -
  have "takeWhile (\<lambda>c. c \<noteq> CHR ''?'' \<and> c \<noteq> CHR ''#'') (p @ CHR ''#'' # rest)
          = p @ takeWhile (\<lambda>c. c \<noteq> CHR ''?'' \<and> c \<noteq> CHR ''#'') (CHR ''#'' # rest)"
    by (rule takeWhile_append2) (use assms in auto)
  then show ?thesis by (simp add: sent_path_def)
qed


lemma length_split_on: "length (split_on c xs) = Suc (length (filter (\<lambda>x. x = c) xs))"
  by (induction xs) (auto split: list.splits)

lemma split_on_not_empty: "split_on c xs \<noteq> []"
  using length_split_on [of c xs] by auto

lemma split_on_no_separator: "c \<notin> set ys \<Longrightarrow> split_on c ys = [ys]"
  by (induction ys) auto

lemma last_split_on_append: "last (split_on c (xs @ c # ys)) = last (split_on c ys)"
proof (induction xs)
  case Nil
  then show ?case by (simp add: split_on_not_empty)
next
  case (Cons x xs)
  have "2 \<le> length (split_on c (xs @ c # ys))" by (simp add: length_split_on)
  then obtain y z zs where "split_on c (xs @ c # ys) = y # z # zs"
    by (cases "split_on c (xs @ c # ys)" rule: list.exhaust [case_product list.exhaust]) 
       (auto simp: neq_Nil_conv Suc_le_eq)
  then show ?case using Cons by (auto simp: split_on_not_empty)
qed

lemma last_split_on:
  "c \<notin> set ys \<Longrightarrow> last (split_on c (xs @ c # ys)) = ys"
  by (simp add: last_split_on_append split_on_no_separator)

lemma shareLink_pathname:
  assumes "CHR ''#'' \<notin> set fileId" "CHR ''?'' \<notin> set fileId"
  shows "location_pathname origin (shareLink origin fileId kb) = ''/file/'' @ fileId"
proof -
  have "sent_path ((''/file/'' @ fileId) @ CHR ''#'' # kb) = ''/file/'' @ fileId"
    by (rule sent_path_prefix) (use assms in auto)
  then show ?thesis by (simp add: location_pathname_def shareLink_def)
qed

lemma shareLink_hash:
  assumes "CHR ''#'' \<notin> set origin" "CHR ''#'' \<notin> set fileId" "kb \<noteq> []"
  shows "location_hash (shareLink origin fileId kb) = CHR ''#'' # kb"
proof -
  have "dropWhile (\<lambda>c. c \<noteq> CHR ''#'') ((origin @ ''/file/'' @ fileId) @ CHR ''#'' # kb)
          = dropWhile (\<lambda>c. c \<noteq> CHR ''#'') (CHR ''#'' # kb)"
    by (rule dropWhile_append2) (use assms in auto)
  then show ?thesis using assms(3) by (simp add: location_hash_def shareLink_def Let_def)
qed

lemma download_page_of_shareLink:
  assumes "CHR ''#'' \<notin> set origin" "CHR ''#'' \<notin> set fileId" "CHR ''?'' \<notin> set fileId"
    "CHR ''/'' \<notin> set fileId" "fileId \<noteq> []" "kb \<noteq> []"
  shows "initDownloadPage origin (shareLink origin fileId kb) = Some (getFileMetadata fileId, kb)"
proof -
  have "last (split_on (CHR ''/'') (''/file'' @ CHR ''/'' # fileId)) = fileId"
    using assms(4) by (rule last_split_on)
  then have "last (split_on (CHR ''/'') (''/file/'' @ fileId)) = fileId" by simp
  then have l: "last (split_on (CHR ''/'') (location_pathname origin (shareLink origin fileId kb))) = fileId"
    by (simp only: shareLink_pathname [OF assms(2,3)])
  have h: "drop 1 (location_hash (shareLink origin fileId kb)) = kb"
    by (simp add: shareLink_hash [OF assms(1,2,6)])
  show ?thesis
    unfolding initDownloadPage_def Let_def l h using assms(5,6) by simp
qed

lemma sextets_eq_Nil: "sextets xs = [] \<longleftrightarrow> xs = []"
  by (induction xs rule: sextets.induct) auto

lemma toBase64Url_not_empty: "k \<noteq> [] \<Longrightarrow> toBase64Url k \<noteq> []"
  by (simp add: toBase64Url_body sextets_eq_Nil)

lemma some_id_plain:
  "CHR ''#'' \<notin> set some_id" "CHR ''?'' \<notin> set some_id" "CHR ''/'' \<notin> set some_id" "some_id \<noteq> []"
  by (simp_all add: some_id_def)


text \<open>
  Claim C1. Take the click on the upload button with two keys \<open>k1\<close> and \<open>k2\<close>, everything
  else (file, IV, ciphertext, token, page, \<open>fetch\<close> and the state behind it) being the same.
  Whatever answers the requests, the server of this repository included: the requests sent
  are the same, the responses received are the same, and the state behind \<open>fetch\<close>
  afterwards is the same. Without a file nothing is sent. With a file the requests are:
  none; or the POST to \<open>/api/upload\<close> whose body has exactly the fields \<open>file\<close> (the
  ciphertext), \<open>iv\<close>, \<open>filename\<close>, \<open>mimetype\<close> and \<open>filesize\<close>; or that POST followed by the
  GET of \<open>/api/myfiles\<close> that \<open>loadMyFiles\<close> sends, which carries the token and no body.
  The share link, when there is one, is \<open>origin/file/id#\<close> followed by the encoded key,
  with the same id for both keys. Of a share link a user agent transmits
  \<open>origin/file/id\<close> only, and the download page opened from it requests the metadata by
  the id alone, keeping the encoded key (from which the key bytes are decoded exactly) on
  the client.
\<close>

theorem C1_key_only_in_fragment:
  "sent (snd (upload_click origin token p keys chosen k1 iv c fetch srv))
     = sent (snd (upload_click origin token p keys chosen k2 iv c fetch srv))
   \<and> received (snd (upload_click origin token p keys chosen k1 iv c fetch srv))
     = received (snd (upload_click origin token p keys chosen k2 iv c fetch srv))
   \<and> fst (upload_click origin token p keys chosen k1 iv c fetch srv)
     = fst (upload_click origin token p keys chosen k2 iv c fetch srv)
   \<and> sent (snd (upload_click origin token p keys None k1 iv c fetch srv)) = []
   \<and> (sent (snd (upload_click origin token p keys (Some f) k1 iv c fetch srv)) = []
      \<or> sent (snd (upload_click origin token p keys (Some f) k1 iv c fetch srv)) =
          [\<lparr>h_method = ''POST'', h_url = ''/api/upload'',
            h_headers = [(''Authorization'', ''Bearer '' @ or_else token [])],
            h_body = [(''file'', FormBlob c),
                      (''iv'', FormText (btoa (String_fromCharCode iv))),
                      (''filename'', FormText (cf_name f)),
                      (''mimetype'', FormText (or_else (Some (cf_type f)) ''application/octet-stream'')),
                      (''filesize'', FormText (nat_toString (cf_size f)))]\<rparr>]
      \<or> sent (snd (upload_click origin token p keys (Some f) k1 iv c fetch srv)) =
          [\<lparr>h_method = ''POST'', h_url = ''/api/upload'',
            h_headers = [(''Authorization'', ''Bearer '' @ or_else token [])],
            h_body = [(''file'', FormBlob c),
                      (''iv'', FormText (btoa (String_fromCharCode iv))),
                      (''filename'', FormText (cf_name f)),
                      (''mimetype'', FormText (or_else (Some (cf_type f)) ''application/octet-stream'')),
                      (''filesize'', FormText (nat_toString (cf_size f)))]\<rparr>,
           \<lparr>h_method = ''GET'', h_url = ''/api/myfiles'',
            h_headers = [(''Authorization'', ''Bearer '' @ or_else token [])], h_body = []\<rparr>])
   \<and> ((link (snd (upload_click origin token p keys chosen k1 iv c fetch srv)) = None
        \<and> link (snd (upload_click origin token p keys chosen k2 iv c fetch srv)) = None)
      \<or> (\<exists>fileId.
            link (snd (upload_click origin token p keys chosen k1 iv c fetch srv))
              = Some (origin @ ''/file/'' @ fileId @ ''#'' @ toBase64Url k1)
          \<and> link (snd (upload_click origin token p keys chosen k2 iv c fetch srv))
              = Some (origin @ ''/file/'' @ fileId @ ''#'' @ toBase64Url k2)))
   \<and> (CHR ''#'' \<notin> set origin \<and> CHR ''?'' \<notin> set origin
        \<and> CHR ''#'' \<notin> set fileId \<and> CHR ''?'' \<notin> set fileId \<longrightarrow>
        sent_path (shareLink origin fileId (toBase64Url k1)) = origin @ ''/file/'' @ fileId)
   \<and> (CHR ''#'' \<notin> set origin \<and> CHR ''#'' \<notin> set fileId \<and> CHR ''?'' \<notin> set fileId
        \<and> CHR ''/'' \<notin> set fileId \<and> fileId \<noteq> [] \<and> k1 \<noteq> [] \<longrightarrow>
        initDownloadPage origin (shareLink origin fileId (toBase64Url k1))
          = Some (getFileMetadata fileId, toBase64Url k1)
        \<and> fromBase64Url (toBase64Url k1) = Inr k1)"
proof (intro conjI impI)
  note i = upload_click_key_independent [of origin token p keys chosen k1 iv c fetch srv k2]
  show "sent (snd (upload_click origin token p keys chosen k1 iv c fetch srv))
     = sent (snd (upload_click origin token p keys chosen k2 iv c fetch srv))"
    using i by blast
  show "received (snd (upload_click origin token p keys chosen k1 iv c fetch srv))
     = received (snd (upload_click origin token p keys chosen k2 iv c fetch srv))"
    using i by blast
  show "fst (upload_click origin token p keys chosen k1 iv c fetch srv)
     = fst (upload_click origin token p keys chosen k2 iv c fetch srv)"
    using i by blast
  show "sent (snd (upload_click origin token p keys None k1 iv c fetch srv)) = []"
    by (simp add: upload_click_def)
  show "sent (snd (upload_click origin token p keys (Some f) k1 iv c fetch srv)) = []
      \<or> sent (snd (upload_click origin token p keys (Some f) k1 iv c fetch srv)) =
          [\<lparr>h_method = ''POST'', h_url = ''/api/upload'',
            h_headers = [(''Authorization'', ''Bearer '' @ or_else token [])],
            h_body = [(''file'', FormBlob c),
                      (''iv'', FormText (btoa (String_fromCharCode iv))),
                      (''filename'', FormText (cf_name f)),
                      (''mimetype'', FormText (or_else (Some (cf_type f)) ''application/octet-stream'')),
                      (''filesize'', FormText (nat_toString (cf_size f)))]\<rparr>]
      \<or> sent (snd (upload_click origin token p keys (Some f) k1 iv c fetch srv)) =
          [\<lparr>h_method = ''POST'', h_url = ''/api/upload'',
            h_headers = [(''Authorization'', ''Bearer '' @ or_else token [])],
            h_body = [(''file'', FormBlob c),
                      (''iv'', FormText (btoa (String_fromCharCode iv))),
                      (''filename'', FormText (cf_name f)),
                      (''mimetype'', FormText (or_else (Some (cf_type f)) ''application/octet-stream'')),
                      (''filesize'', FormText (nat_toString (cf_size f)))]\<rparr>,
           \<lparr>h_method = ''GET'', h_url = ''/api/myfiles'',
            h_headers = [(''Authorization'', ''Bearer '' @ or_else token [])], h_body = []\<rparr>]"
    using upload_click_requests [of origin token p keys f k1 iv c fetch srv] by auto
  show "(link (snd (upload_click origin token p keys chosen k1 iv c fetch srv)) = None
        \<and> link (snd (upload_click origin token p keys chosen k2 iv c fetch srv)) = None)
      \<or> (\<exists>fileId.
            link (snd (upload_click origin token p keys chosen k1 iv c fetch srv))
              = Some (origin @ ''/file/'' @ fileId @ ''#'' @ toBase64Url k1)
          \<and> link (snd (upload_click origin token p keys chosen k2 iv c fetch srv))
              = Some (origin @ ''/file/'' @ fileId @ ''#'' @ toBase64Url k2))"
    using upload_click_link [of origin token p keys chosen k1 iv c fetch srv k2] by blast
  show "sent_path (shareLink origin fileId (toBase64Url k1)) = origin @ ''/file/'' @ fileId"
    if "CHR ''#'' \<notin> set origin \<and> CHR ''?'' \<notin> set origin
        \<and> CHR ''#'' \<notin> set fileId \<and> CHR ''?'' \<notin> set fileId"
  proof -
    have "sent_path ((origin @ ''/file/'' @ fileId) @ CHR ''#'' # toBase64Url k1) = origin @ ''/file/'' @ fileId"
      by (rule sent_path_prefix) (use that in auto)
    then show ?thesis by (simp add: shareLink_def)
  qed
  assume a: "CHR ''#'' \<notin> set origin \<and> CHR ''#'' \<notin> set fileId \<and> CHR ''?'' \<notin> set fileId
        \<and> CHR ''/'' \<notin> set fileId \<and> fileId \<noteq> [] \<and> k1 \<noteq> []"
  then have "toBase64Url k1 \<noteq> []" by (simp add: toBase64Url_not_empty)
  with a show "initDownloadPage origin (shareLink origin fileId (toBase64Url k1))
          = Some (getFileMetadata fileId, toBase64Url k1)"
    by (simp add: download_page_of_shareLink)
  show "fromBase64Url (toBase64Url k1) = Inr k1" by (rule base64url_roundtrip)
qed

text \<open>The theorem at a concrete click: bob, logged in, uploads \<open>notes.txt\<close> with the key
  bytes 1, 2, 3 (and, for comparison, 4, 5, 6); what answers counts the requests and
  replies 201 with the id \<open>some_id\<close> to the POST and an empty listing to the GET.\<close>

theorem C1_witness:
  "CHR ''#'' \<notin> set ''https://share.example'' \<and> CHR ''?'' \<notin> set ''https://share.example''
   \<and> CHR ''#'' \<notin> set some_id \<and> CHR ''?'' \<notin> set some_id \<and> CHR ''/'' \<notin> set some_id
   \<and> some_id \<noteq> [] \<and> [1, 2, 3 :: byte] \<noteq> []
   \<and> sent (snd (upload_click ''https://share.example'' (Some ''token-of-bob'') True Map.empty
        (Some \<lparr>cf_name = ''notes.txt'', cf_type = [], cf_size = 3\<rparr>) [1, 2, 3] [0, 1, 2] [7, 8]
        (\<lambda>hr n. (Suc n, Some (if h_method hr = ''POST''
                                then (201, Uploaded some_id ''2026-11-03T00:00:00.000Z'')
                                else (200, FileList []))))
        (0 :: nat)))
       = [\<lparr>h_method = ''POST'', h_url = ''/api/upload'',
            h_headers = [(''Authorization'', ''Bearer token-of-bob'')],
            h_body = [(''file'', FormBlob [7, 8]),
                      (''iv'', FormText ''AAEC''),
                      (''filename'', FormText ''notes.txt''),
                      (''mimetype'', FormText ''application/octet-stream''),
                      (''filesize'', FormText ''3'')]\<rparr>,
          \<lparr>h_method = ''GET'', h_url = ''/api/myfiles'',
            h_headers = [(''Authorization'', ''Bearer token-of-bob'')], h_body = []\<rparr>]
   \<and> sent (snd (upload_click ''https://share.example'' (Some ''token-of-bob'') True Map.empty
        (Some \<lparr>cf_name = ''notes.txt'', cf_type = [], cf_size = 3\<rparr>) [4, 5, 6] [0, 1, 2] [7, 8]
        (\<lambda>hr n. (Suc n, Some (if h_method hr = ''POST''
                                then (201, Uploaded some_id ''2026-11-03T00:00:00.000Z'')
                                else (200, FileList []))))
        (0 :: nat)))
       = sent (snd (upload_click ''https://share.example'' (Some ''token-of-bob'') True Map.empty
        (Some \<lparr>cf_name = ''notes.txt'', cf_type = [], cf_size = 3\<rparr>) [1, 2, 3] [0, 1, 2] [7, 8]
        (\<lambda>hr n. (Suc n, Some (if h_method hr = ''POST''
                                then (201, Uploaded some_id ''2026-11-03T00:00:00.000Z'')
                                else (200, FileList []))))
        (0 :: nat)))
   \<and> link (snd (upload_click ''https://share.example'' (Some ''token-of-bob'') True Map.empty
        (Some \<lparr>cf_name = ''notes.txt'', cf_type = [], cf_size = 3\<rparr>) [1, 2, 3] [0, 1, 2] [7, 8]
        (\<lambda>hr n. (Suc n, Some (if h_method hr = ''POST''
                                then (201, Uploaded some_id ''2026-11-03T00:00:00.000Z'')
                                else (200, FileList []))))
        (0 :: nat)))
       = Some ''https://share.example/file/123e4567-e89b-42d3-a456-426614174000#AQID''
   \<and> sent_path (shareLink ''https://share.example'' some_id (toBase64Url [1, 2, 3]))
       = ''https://share.example'' @ ''/file/'' @ some_id
   \<and> initDownloadPage ''https://share.example'' (shareLink ''https://share.example'' some_id (toBase64Url [1, 2, 3]))
       = Some (getFileMetadata some_id, toBase64Url [1, 2, 3])
   \<and> fromBase64Url (toBase64Url [1, 2, 3]) = Inr [1, 2, 3]"
proof -
  have o: "CHR ''#'' \<notin> set ''https://share.example''" "CHR ''?'' \<notin> set ''https://share.example''"
    by simp_all
  have k: "[1, 2, 3 :: byte] \<noteq> []" by simp
  have s: "sent (snd (upload_click ''https://share.example'' (Some ''token-of-bob'') True Map.empty
        (Some \<lparr>cf_name = ''notes.txt'', cf_type = [], cf_size = 3\<rparr>) [1, 2, 3] [0, 1, 2] [7, 8]
        (\<lambda>hr n. (Suc n, Some (if h_method hr = ''POST''
                                then (201, Uploaded some_id ''2026-11-03T00:00:00.000Z'')
                                else (200, FileList []))))
        (0 :: nat)))
       = [\<lparr>h_method = ''POST'', h_url = ''/api/upload'',
            h_headers = [(''Authorization'', ''Bearer token-of-bob'')],
            h_body = [(''file'', FormBlob [7, 8]),
                      (''iv'', FormText ''AAEC''),
                      (''filename'', FormText ''notes.txt''),
                      (''mimetype'', FormText ''application/octet-stream''),
                      (''filesize'', FormText ''3'')]\<rparr>,
          \<lparr>h_method = ''GET'', h_url = ''/api/myfiles'',
            h_headers = [(''Authorization'', ''Bearer token-of-bob'')], h_body = []\<rparr>]"
    by code_simp
  have l: "link (snd (upload_click ''https://share.example'' (Some ''token-of-bob'') True Map.empty
        (Some \<lparr>cf_name = ''notes.txt'', cf_type = [], cf_size = 3\<rparr>) [1, 2, 3] [0, 1, 2] [7, 8]
        (\<lambda>hr n. (Suc n, Some (if h_method hr = ''POST''
                                then (201, Uploaded some_id ''2026-11-03T00:00:00.000Z'')
                                else (200, FileList []))))
        (0 :: nat)))
       = Some ''https://share.example/file/123e4567-e89b-42d3-a456-426614174000#AQID''"
    by code_simp
  note t = C1_key_only_in_fragment [where origin = "''https://share.example''" and fileId = some_id
        and ?k1.0 = "[1, 2, 3]" and ?k2.0 = "[4, 5, 6]" and token = "Some ''token-of-bob''" and p = True
        and keys = Map.empty and chosen = "Some \<lparr>cf_name = ''notes.txt'', cf_type = [], cf_size = 3\<rparr>"
        and f = "\<lparr>cf_name = ''notes.txt'', cf_type = [], cf_size = 3\<rparr>"
        and iv = "[0, 1, 2]" and c = "[7, 8]"
        and fetch = "\<lambda>hr n. (Suc n, Some (if h_method hr = ''POST''
                                then (201, Uploaded some_id ''2026-11-03T00:00:00.000Z'')
                                else (200, FileList [])))"
        and srv = "0 :: nat"]
  have e: "sent (snd (upload_click ''https://share.example'' (Some ''token-of-bob'') True Map.empty
        (Some \<lparr>cf_name = ''notes.txt'', cf_type = [], cf_size = 3\<rparr>) [4, 5, 6] [0, 1, 2] [7, 8]
        (\<lambda>hr n. (Suc n, Some (if h_method hr = ''POST''
                                then (201, Uploaded some_id ''2026-11-03T00:00:00.000Z'')
                                else (200, FileList []))))
        (0 :: nat)))
       = sent (snd (upload_click ''https://share.example'' (Some ''token-of-bob'') True Map.empty
        (Some \<lparr>cf_name = ''notes.txt'', cf_type = [], cf_size = 3\<rparr>) [1, 2, 3] [0, 1, 2] [7, 8]
        (\<lambda>hr n. (Suc n, Some (if h_method hr = ''POST''
                                then (201, Uploaded some_id ''2026-11-03T00:00:00.000Z'')
                                else (200, FileList []))))
        (0 :: nat)))"
    using t [THEN conjunct1, symmetric] .
  have d: "sent_path (shareLink ''https://share.example'' some_id (toBase64Url [1, 2, 3]))
       = ''https://share.example'' @ ''/file/'' @ some_id
   \<and> initDownloadPage ''https://share.example'' (shareLink ''https://share.example'' some_id (toBase64Url [1, 2, 3]))
       = Some (getFileMetadata some_id, toBase64Url [1, 2, 3])
   \<and> fromBase64Url (toBase64Url [1, 2, 3]) = Inr [1, 2, 3]"
    using t o k some_id_plain by blast
  show ?thesis using o k some_id_plain s l e d by blast
qed

end
